theory Spec2Isabelle
  imports Complex_Main
begin

section \<open>Data model (types.ts)\<close>

text \<open>
  Representation of the JavaScript values.
  \<^item> An instant (a \<open>Date\<close>, or the ISO string \<open>toISOString\<close> prints for it) is the
    number of milliseconds since the epoch, an \<open>int\<close>.
  \<^item> A calendar date string \<open>YYYY-MM-DD\<close> is the number of its day since 1970-01-01.
    On such strings \<open>===\<close>, \<open><=\<close> and \<open>>=\<close> agree with the integers, and
    \<open>new Date(s)\<close> is UTC midnight of that day.
  \<^item> A coordinate is a finite double, kept as the real number it denotes. What double
    arithmetic returns is a \<open>number\<close>: a real, an infinity or NaN. The arithmetic itself
    (the rounding of \<open>*\<close>, \<open>/\<close>, \<open>+\<close>, \<open>-\<close> and what \<open>Math.sin\<close>, \<open>Math.cos\<close>,
    \<open>Math.sqrt\<close>, \<open>Math.atan2\<close> and \<open>Math.PI\<close> yield) belongs to the runtime and
    is a parameter of every call.
  \<^item> An optional field is an \<open>option\<close>; \<open>null\<close> and \<open>undefined\<close> are \<open>None\<close>.
  \<^item> Fields that only the user interface reads (photo, password, campus, the leave form
    details) are left out of the records.
\<close>

type_synonym instant = int
type_synonym isodate = int

record coords =
  latitude :: real
  longitude :: real

datatype EmployeeRole = RoleUser | RoleManager | RoleAdmin

record EmployeeInfo =
  e_id :: string
  e_name :: string
  e_department :: string
  e_role :: EmployeeRole

record Department =
  d_name :: string
  d_location :: "coords option"

record DailyTimeRecord =
  r_id :: string
  r_employeeId :: string
  r_employeeName :: string
  r_department :: string
  r_date :: isodate
  timeIn :: "instant option"
  breakOut :: "instant option"
  breakIn :: "instant option"
  timeOut :: "instant option"
  onDuty :: "bool option"
  scanLocation :: "coords option"
  isOutOfRange :: "bool option"

datatype LeaveStatus = Pending | Approved | Rejected

record LeaveRecord =
  l_id :: string
  l_employeeId :: string
  l_employeeName :: string
  l_department :: string
  l_startDate :: isodate
  l_endDate :: isodate
  l_primaryLeaveType :: string
  l_status :: LeaveStatus

record AppNotification =
  n_id :: string
  n_recipientId :: string
  n_message :: string
  n_read :: bool
  n_createdAt :: instant

record User =
  u_username :: string
  u_employeeId :: "string option"

text \<open>The top-level component state of App.tsx that the attendance logic touches.\<close>

record app_state =
  employees :: "EmployeeInfo list"
  departments :: "Department list"
  dailyRecords :: "DailyTimeRecord list"
  leaveRecords :: "LeaveRecord list"
  notifications :: "AppNotification list"

section \<open>Dates and strings of the JavaScript runtime\<close>

definition msPerDay :: int where
  "msPerDay = 86400000"

text \<open>\<open>new Date(s)\<close> for a date-only string \<open>s\<close>: UTC midnight of the day.\<close>

definition newDate :: "isodate \<Rightarrow> instant" where
  "newDate d = d * msPerDay"

text \<open>\<open>d.toISOString().split('T')[0]\<close>: the UTC calendar day of an instant.\<close>

definition toISODate :: "instant \<Rightarrow> isodate" where
  "toISODate t = t div msPerDay"

text \<open>
  \<open>d.setHours(h, m, s, ms)\<close> keeps the local calendar day of \<open>d\<close> and sets its local
  wall-clock time. The local zone is a fixed offset \<open>tzv\<close> in milliseconds east of UTC.
\<close>

definition setHours :: "int \<Rightarrow> instant \<Rightarrow> int \<Rightarrow> int \<Rightarrow> int \<Rightarrow> int \<Rightarrow> instant" where
  "setHours tzv t h m s ms =
     (let localT = t + tzv;
          midnight = (localT div msPerDay) * msPerDay
      in midnight + h * 3600000 + m * 60000 + s * 1000 + ms - tzv)"

text \<open>Local wall-clock time of an instant, in milliseconds after local midnight.\<close>

definition wallClock :: "int \<Rightarrow> instant \<Rightarrow> int" where
  "wallClock tzv t = (t + tzv) mod msPerDay"

definition hm :: "int \<Rightarrow> int \<Rightarrow> int" where
  "hm h m = h * 3600000 + m * 60000"

text \<open>Decimal digits, as template literals print numbers.\<close>

fun showNat :: "nat \<Rightarrow> string" where
  "showNat n = (if n < 10 then [char_of (48 + n)] else showNat (n div 10) @ [char_of (48 + n mod 10)])"

declare showNat.simps [simp del]

definition showInt :: "int \<Rightarrow> string" where
  "showInt i = (if i < 0 then ''-'' @ showNat (nat (- i)) else showNat (nat i))"

definition pad :: "nat \<Rightarrow> int \<Rightarrow> string" where
  "pad k i = (let s = showNat (nat i) in replicate (k - length s) (CHR ''0'') @ s)"

text \<open>Year, month and day of a day number in the proleptic Gregorian calendar.\<close>

definition civilFromDays :: "int \<Rightarrow> int \<times> int \<times> int" where
  "civilFromDays z0 =
     (let z = z0 + 719468;
          era = z div 146097;
          doe = z mod 146097;
          yoe = (doe - doe div 1460 + doe div 36524 - doe div 146096) div 365;
          y = yoe + era * 400;
          doy = doe - (365 * yoe + yoe div 4 - yoe div 100);
          mp = (5 * doy + 2) div 153;
          d = doy - (153 * mp + 2) div 5 + 1;
          m = (if mp < 10 then mp + 3 else mp - 9)
      in (if m \<le> 2 then y + 1 else y, m, d))"

text \<open>The day number of year \<open>y\<close>, month \<open>m\<close>, day \<open>d\<close>: how \<open>'2023-11-01'\<close> is read.\<close>

definition daysFromCivil :: "int \<Rightarrow> int \<Rightarrow> int \<Rightarrow> isodate" where
  "daysFromCivil y0 m d =
     (let y = (if m \<le> 2 then y0 - 1 else y0);
          era = y div 400;
          yoe = y - era * 400;
          doy = (153 * (if m > 2 then m - 3 else m + 9) + 2) div 5 + d - 1;
          doe = yoe * 365 + yoe div 4 - yoe div 100 + doy
      in era * 146097 + doe - 719468)"

text \<open>The text \<open>YYYY-MM-DD\<close> of a day number, as it appears inside a record id.\<close>

definition dateString :: "isodate \<Rightarrow> string" where
  "dateString z =
     (case civilFromDays z of (y, m, d) \<Rightarrow>
        (if 0 \<le> y \<and> y \<le> 9999 then pad 4 y
         else (if y < 0 then ''-'' else ''+'') @ pad 6 \<bar>y\<bar>)
        @ ''-'' @ pad 2 m @ ''-'' @ pad 2 d)"

section \<open>Geofence distance (calculateDistance in App.tsx)\<close>

datatype number = Num real | PosInfinity | NegInfinity | NaN

text \<open>
  The double arithmetic of the runtime. \<open>ftext\<close> is the text a template literal prints
  for a finite number that is not an integer below \<open>10^21\<close>.
\<close>

record arithmetic =
  fmul :: "number \<Rightarrow> number \<Rightarrow> number"
  fdiv :: "number \<Rightarrow> number \<Rightarrow> number"
  fadd :: "number \<Rightarrow> number \<Rightarrow> number"
  fsub :: "number \<Rightarrow> number \<Rightarrow> number"
  fsin :: "number \<Rightarrow> number"
  fcos :: "number \<Rightarrow> number"
  fsqrt :: "number \<Rightarrow> number"
  fatan2 :: "number \<Rightarrow> number \<Rightarrow> number"
  fpi :: number
  ftext :: "real \<Rightarrow> string"

definition LOCATION_THRESHOLD_METERS :: real where
  "LOCATION_THRESHOLD_METERS = 200"

text \<open>
  The body of \<open>calculateDistance\<close>, operation by operation, in the arithmetic \<open>ar\<close>.
  \<open>lat1 * Math.PI/180\<close> is \<open>(lat1 * Math.PI) / 180\<close>, and a product of four factors
  is taken from the left.
\<close>

definition calculateDistance ::
  "arithmetic \<Rightarrow> real \<Rightarrow> real \<Rightarrow> real \<Rightarrow> real \<Rightarrow> number" where
  "calculateDistance ar lat1 lon1 lat2 lon2 =
     (let R = Num 6371000;
          phi1 = fdiv ar (fmul ar (Num lat1) (fpi ar)) (Num 180);
          phi2 = fdiv ar (fmul ar (Num lat2) (fpi ar)) (Num 180);
          dphi = fdiv ar (fmul ar (fsub ar (Num lat2) (Num lat1)) (fpi ar)) (Num 180);
          dlam = fdiv ar (fmul ar (fsub ar (Num lon2) (Num lon1)) (fpi ar)) (Num 180);
          a = fadd ar
                (fmul ar (fsin ar (fdiv ar dphi (Num 2))) (fsin ar (fdiv ar dphi (Num 2))))
                (fmul ar
                   (fmul ar (fmul ar (fcos ar phi1) (fcos ar phi2))
                      (fsin ar (fdiv ar dlam (Num 2))))
                   (fsin ar (fdiv ar dlam (Num 2))));
          c = fmul ar (Num 2) (fatan2 ar (fsqrt ar a) (fsqrt ar (fsub ar (Num 1) a)))
      in fmul ar R c)"

text \<open>\<open>x > y\<close> for a number and a finite bound: false when \<open>x\<close> is NaN.\<close>

definition jsGreater :: "number \<Rightarrow> real \<Rightarrow> bool" where
  "jsGreater x y =
     (case x of Num r \<Rightarrow> r > y | PosInfinity \<Rightarrow> True | NegInfinity \<Rightarrow> False | NaN \<Rightarrow> False)"

text \<open>\<open>Math.round\<close>: the nearest integer, a tie going up. It is exact.\<close>

definition Math_round :: "number \<Rightarrow> number" where
  "Math_round x = (case x of Num r \<Rightarrow> Num (of_int (round r)) | other \<Rightarrow> other)"

text \<open>The text of a number inside a template literal.\<close>

definition showNumber :: "arithmetic \<Rightarrow> number \<Rightarrow> string" where
  "showNumber ar x =
     (case x of
        NaN \<Rightarrow> ''NaN''
      | PosInfinity \<Rightarrow> ''Infinity''
      | NegInfinity \<Rightarrow> ''-Infinity''
      | Num r \<Rightarrow>
          if r = of_int \<lfloor>r\<rfloor> \<and> \<bar>r\<bar> < 10 ^ 21 then showInt \<lfloor>r\<rfloor> else ftext ar r)"

section \<open>Recording a scan (onScanSuccess in App.tsx)\<close>

datatype punch = TimeIn | BreakOut | BreakIn | TimeOut

text \<open>
  Every \<open>throw new Error(...)\<close> of \<open>onScanSuccess\<close> is one constructor, carrying the
  values its message interpolates.
\<close>

datatype scan_error =
    UnknownEmployee "string option"
  | InvalidPayload
  | UnknownDepartment string
  | DepartmentMismatch string
  | OnApprovedLeave string string
  | OutsideAllowedWindow punch
  | AlreadyComplete string
  | OnDutyAlreadyComplete

text \<open>
  The decoded QR data is untyped: it is falsy, or an object whose \<open>department\<close> field
  is a string or is not.
\<close>

datatype payload = Falsy | Payload "string option"

record scan_ok =
  message :: string
  recordId :: string

text \<open>
  What one call reads from its environment: the instant \<open>new Date()\<close> returns for
  \<open>now\<close>, the offset of the local time zone, the position fix (\<open>None\<close> when
  geolocation failed), the clock readings taken while a notification for a recipient
  is built (\<open>Date.now()\<close> for its id, \<open>new Date()\<close> for \<open>createdAt\<close>), and the
  double arithmetic of the runtime.
\<close>

record scan_env =
  now :: instant
  tz :: int
  position :: "coords option"
  idClock :: "string \<Rightarrow> instant"
  createdClock :: "string \<Rightarrow> instant"
  arith :: arithmetic

definition locationErrorText :: string where
  "locationErrorText = ''Could not get location. Scan will proceed without verification.''"

text \<open>
  Step 4 of the source, the geolocation check: the out-of-range flag and the
  notifications that \<open>setNotifications\<close> appends, one per entry of \<open>['admin', 'it']\<close>.
\<close>

definition geolocationCheck ::
  "scan_env \<Rightarrow> EmployeeInfo \<Rightarrow> Department \<Rightarrow> bool \<times> AppNotification list" where
  "geolocationCheck env scanningEmployee department =
     (case (position env, d_location department) of
        (Some scanLoc, Some loc) \<Rightarrow>
          (let distance = calculateDistance (arith env) (latitude scanLoc) (longitude scanLoc)
                            (latitude loc) (longitude loc)
           in if jsGreater distance LOCATION_THRESHOLD_METERS then
                (True,
                 map (\<lambda>roleId.
                        \<lparr> n_id = ''notif-'' @ showInt (idClock env roleId) @ ''-'' @ roleId,
                          n_recipientId = roleId,
                          n_message = e_name scanningEmployee @ '' scanned ''
                            @ showNumber (arith env) (Math_round distance)
                            @ ''m away from the '' @ d_name department @ '' office.'',
                          n_read = False,
                          n_createdAt = createdClock env roleId \<rparr>)
                     [''admin'', ''it''])
              else (False, []))
      | _ \<Rightarrow> (False, []))"

definition setScanDetails :: "scan_env \<Rightarrow> bool \<Rightarrow> DailyTimeRecord \<Rightarrow> DailyTimeRecord" where
  "setScanDetails env outOfRange rec =
     rec\<lparr> scanLocation := position env, isOutOfRange := Some outOfRange \<rparr>"

text \<open>
  Step 5 of the source, the time logging: the eight window bounds are built from
  \<open>todayStr\<close> with \<open>setHours\<close>, then the on-duty track or the standard track picks
  the punch. The result is the thrown error, or the updated record and the message.
\<close>

definition timeLogging ::
  "scan_env \<Rightarrow> EmployeeInfo \<Rightarrow> bool \<Rightarrow> DailyTimeRecord
     \<Rightarrow> scan_error + (DailyTimeRecord \<times> string)" where
  "timeLogging env scanningEmployee outOfRange record =
     (let todayStr = toISODate (now env);
          timeInStart = setHours (tz env) (newDate todayStr) 6 0 0 0;
          timeInEnd = setHours (tz env) (newDate todayStr) 8 0 0 0;
          breakOutStart = setHours (tz env) (newDate todayStr) 12 0 0 0;
          breakOutEnd = setHours (tz env) (newDate todayStr) 12 30 0 0;
          breakInStart = setHours (tz env) (newDate todayStr) 12 31 0 0;
          breakInEnd = setHours (tz env) (newDate todayStr) 13 0 0 0;
          timeOutStart = setHours (tz env) (newDate todayStr) 17 0 0 0;
          timeOutEnd = setHours (tz env) (newDate todayStr) 23 0 0 0
      in if onDuty record = Some True then
           (if timeIn record = None then
              Inr (setScanDetails env outOfRange (record\<lparr> timeIn := Some (now env) \<rparr>),
                   ''On-duty Time In for '' @ e_name scanningEmployee @ '' successful.'')
            else if timeOut record = None then
              Inr (setScanDetails env outOfRange (record\<lparr> timeOut := Some (now env) \<rparr>),
                   ''On-duty Time Out for '' @ e_name scanningEmployee @ '' successful.'')
            else Inl OnDutyAlreadyComplete)
         else
           (if timeIn record = None then
              (if now env < timeInStart \<or> now env > timeInEnd
               then Inl (OutsideAllowedWindow TimeIn)
               else Inr (setScanDetails env outOfRange (record\<lparr> timeIn := Some (now env) \<rparr>),
                         ''Time In for '' @ e_name scanningEmployee @ '' successful.''))
            else if breakOut record = None then
              (if now env < breakOutStart \<or> now env > breakOutEnd
               then Inl (OutsideAllowedWindow BreakOut)
               else Inr (setScanDetails env outOfRange (record\<lparr> breakOut := Some (now env) \<rparr>),
                         ''Break Out for '' @ e_name scanningEmployee @ '' successful.''))
            else if breakIn record = None then
              (if now env < breakInStart \<or> now env > breakInEnd
               then Inl (OutsideAllowedWindow BreakIn)
               else Inr (setScanDetails env outOfRange (record\<lparr> breakIn := Some (now env) \<rparr>),
                         ''Break In for '' @ e_name scanningEmployee @ '' successful.''))
            else if timeOut record = None then
              (if now env < timeOutStart \<or> now env > timeOutEnd
               then Inl (OutsideAllowedWindow TimeOut)
               else Inr (setScanDetails env outOfRange (record\<lparr> timeOut := Some (now env) \<rparr>),
                         ''Time Out for '' @ e_name scanningEmployee @ '' successful.''))
            else Inl (AlreadyComplete (e_name scanningEmployee))))"

text \<open>The record that the first scan of a day starts from.\<close>

definition newRecord :: "EmployeeInfo \<Rightarrow> isodate \<Rightarrow> DailyTimeRecord" where
  "newRecord scanningEmployee todayStr =
     \<lparr> r_id = e_id scanningEmployee @ ''-'' @ dateString todayStr,
       r_employeeId = e_id scanningEmployee,
       r_employeeName = e_name scanningEmployee,
       r_department = e_department scanningEmployee,
       r_date = todayStr,
       timeIn = None, breakOut = None, breakIn = None, timeOut = None,
       onDuty = None, scanLocation = None, isOutOfRange = None \<rparr>"

definition suffixes :: "scan_env \<Rightarrow> bool \<Rightarrow> string" where
  "suffixes env outOfRange =
     (if outOfRange then '' (Location was out of range)'' else [])
     @ (if position env = None then '' ('' @ locationErrorText @ '')'' else [])"

text \<open>
  The two lookups of step 5: the approved leave that covers today, and today's record of
  the scanning employee. \<open>find\<close> returns the first match.
\<close>

definition employeeOnLeave ::
  "LeaveRecord list \<Rightarrow> EmployeeInfo \<Rightarrow> isodate \<Rightarrow> LeaveRecord option" where
  "employeeOnLeave leaveRecs scanningEmployee todayStr =
     find (\<lambda>l. l_employeeId l = e_id scanningEmployee
                \<and> todayStr \<ge> l_startDate l \<and> todayStr \<le> l_endDate l
                \<and> l_status l = Approved) leaveRecs"

definition findRecord ::
  "DailyTimeRecord list \<Rightarrow> EmployeeInfo \<Rightarrow> isodate \<Rightarrow> DailyTimeRecord option" where
  "findRecord recs scanningEmployee todayStr =
     find (\<lambda>r. r_employeeId r = e_id scanningEmployee \<and> r_date r = todayStr) recs"

text \<open>
  The whole handler, in the order of the source. The state it returns holds every
  queued \<open>setNotifications\<close> and \<open>setDailyRecords\<close> update, also when an error is
  thrown afterwards: a throw does not take back an update already queued.
\<close>

definition onScanSuccess ::
  "app_state \<Rightarrow> scan_env \<Rightarrow> payload \<Rightarrow> User \<Rightarrow> app_state \<times> (scan_error + scan_ok)" where
  "onScanSuccess st env decodedData user =
     (case find (\<lambda>e. Some (e_id e) = u_employeeId user) (employees st) of
        None \<Rightarrow> (st, Inl (UnknownEmployee (u_employeeId user)))
      | Some scanningEmployee \<Rightarrow>
     (case decodedData of
        Falsy \<Rightarrow> (st, Inl InvalidPayload)
      | Payload None \<Rightarrow> (st, Inl InvalidPayload)
      | Payload (Some qrDepartment) \<Rightarrow>
     (case find (\<lambda>d. d_name d = qrDepartment) (departments st) of
        None \<Rightarrow> (st, Inl (UnknownDepartment qrDepartment))
      | Some department \<Rightarrow>
     if e_department scanningEmployee \<noteq> qrDepartment
     then (st, Inl (DepartmentMismatch (e_department scanningEmployee)))
     else
       (let (outOfRange, notes) = geolocationCheck env scanningEmployee department;
            st1 = st\<lparr> notifications := notifications st @ notes \<rparr>;
            todayStr = toISODate (now env)
        in case employeeOnLeave (leaveRecords st) scanningEmployee todayStr of
             Some onLeave \<Rightarrow>
               (st1, Inl (OnApprovedLeave (e_name scanningEmployee)
                            (l_primaryLeaveType onLeave)))
           | None \<Rightarrow>
       (let found = findRecord (dailyRecords st) scanningEmployee todayStr;
            createNewRecord = (found = None);
            record = (case found of None \<Rightarrow> newRecord scanningEmployee todayStr
                                  | Some r \<Rightarrow> r)
        in case timeLogging env scanningEmployee outOfRange record of
             Inl err \<Rightarrow> (st1, Inl err)
           | Inr (updatedRecord, msg) \<Rightarrow>
               (st1\<lparr> dailyRecords :=
                  (if createNewRecord then dailyRecords st @ [updatedRecord]
                   else map (\<lambda>r. if r_id r = r_id record then updatedRecord else r)
                          (dailyRecords st)) \<rparr>,
                Inr \<lparr> message = msg @ suffixes env outOfRange,
                      recordId = r_id record \<rparr>))))))"

section \<open>Scheduling special duty (onScheduleOnDuty in App.tsx)\<close>

text \<open>
  Both dashboards pass the same handler. \<open>employees.find(...)!\<close> on an unknown id
  makes \<open>emp.name\<close> throw before any update is queued: that is \<open>None\<close>.
\<close>

definition onScheduleOnDuty :: "app_state \<Rightarrow> string \<Rightarrow> isodate \<Rightarrow> app_state option" where
  "onScheduleOnDuty st empId date =
     (case find (\<lambda>e. e_id e = empId) (employees st) of
        None \<Rightarrow> None
      | Some emp \<Rightarrow>
          Some (st\<lparr> dailyRecords := dailyRecords st @
                  [\<lparr> r_id = empId @ ''-'' @ dateString date,
                     r_employeeId = empId,
                     r_employeeName = e_name emp,
                     r_department = e_department emp,
                     r_date = date,
                     timeIn = None, breakOut = None, breakIn = None, timeOut = None,
                     onDuty = Some True, scanLocation = None, isOutOfRange = None \<rparr>] \<rparr>))"

section \<open>Leave conflict check (validateAndSubmit in LeaveApplicationFormModal.tsx)\<close>

text \<open>
  The \<open>some\<close> over the leave records. \<open>reviewRecord\<close> is present exactly in review
  mode; the form's start and end dates are \<open>leaveStartDate\<close> and \<open>leaveEndDate\<close>.
\<close>

definition isOverlapping ::
  "LeaveRecord list \<Rightarrow> EmployeeInfo \<Rightarrow> LeaveRecord option \<Rightarrow> isodate \<Rightarrow> isodate \<Rightarrow> bool" where
  "isOverlapping leaveRecs employee reviewRecord leaveStartDate leaveEndDate =
     (let newLeaveStart = newDate leaveStartDate;
          newLeaveEnd = newDate leaveEndDate;
          isReviewMode = (reviewRecord \<noteq> None)
      in list_ex (\<lambda>record.
           if l_employeeId record \<noteq> e_id employee \<or> l_status record = Rejected then False
           else if isReviewMode \<and> Some (l_id record) = map_option l_id reviewRecord then False
           else (let existingStart = newDate (l_startDate record);
                     existingEnd = newDate (l_endDate record)
                 in newLeaveStart \<le> existingEnd \<and> newLeaveEnd \<ge> existingStart))
         leaveRecs)"

section \<open>Initial data (initialData.ts)\<close>

text \<open>The instant of a UTC date and time, as in \<open>'2023-10-26T07:58:00Z'\<close>.\<close>

definition utcInstant :: "int \<Rightarrow> int \<Rightarrow> int \<Rightarrow> int \<Rightarrow> int \<Rightarrow> instant" where
  "utcInstant y m d h mi = daysFromCivil y m d * msPerDay + h * 3600000 + mi * 60000"

definition initialDepartments :: "Department list" where
  "initialDepartments =
     [\<lparr> d_name = ''Admin Office'', d_location = Some \<lparr> latitude = 8.5733, longitude = 124.7811 \<rparr> \<rparr>,
      \<lparr> d_name = ''Engineering'', d_location = Some \<lparr> latitude = 8.5735, longitude = 124.7813 \<rparr> \<rparr>,
      \<lparr> d_name = ''Human Resources'', d_location = Some \<lparr> latitude = 8.6010, longitude = 124.7920 \<rparr> \<rparr>,
      \<lparr> d_name = ''Finance'', d_location = Some \<lparr> latitude = 8.5730, longitude = 124.7810 \<rparr> \<rparr>]"

definition initialEmployees :: "EmployeeInfo list" where
  "initialEmployees =
     [\<lparr> e_id = ''1001'', e_name = ''Alice Johnson'', e_department = ''Admin Office'', e_role = RoleManager \<rparr>,
      \<lparr> e_id = ''1002'', e_name = ''Bob Williams'', e_department = ''Admin Office'', e_role = RoleUser \<rparr>,
      \<lparr> e_id = ''2001'', e_name = ''Charlie Brown'', e_department = ''Engineering'', e_role = RoleManager \<rparr>,
      \<lparr> e_id = ''2002'', e_name = ''Diana Miller'', e_department = ''Engineering'', e_role = RoleUser \<rparr>,
      \<lparr> e_id = ''2003'', e_name = ''Ethan Davis'', e_department = ''Engineering'', e_role = RoleUser \<rparr>,
      \<lparr> e_id = ''3001'', e_name = ''Fiona Garcia'', e_department = ''Human Resources'', e_role = RoleManager \<rparr>,
      \<lparr> e_id = ''3002'', e_name = ''George Rodriguez'', e_department = ''Human Resources'', e_role = RoleUser \<rparr>,
      \<lparr> e_id = ''4001'', e_name = ''Hannah Martinez'', e_department = ''Finance'', e_role = RoleUser \<rparr>,
      \<lparr> e_id = ''admin'', e_name = ''Super Admin'', e_department = ''Admin Office'', e_role = RoleAdmin \<rparr>]"

definition initialDailyRecords :: "DailyTimeRecord list" where
  "initialDailyRecords =
     [\<lparr> r_id = ''1001-2023-10-26'', r_employeeId = ''1001'', r_employeeName = ''Alice Johnson'',
        r_department = ''Admin Office'', r_date = daysFromCivil 2023 10 26,
        timeIn = Some (utcInstant 2023 10 26 7 58), breakOut = Some (utcInstant 2023 10 26 12 1),
        breakIn = Some (utcInstant 2023 10 26 12 59), timeOut = Some (utcInstant 2023 10 26 17 5),
        onDuty = None, scanLocation = None, isOutOfRange = None \<rparr>,
      \<lparr> r_id = ''2001-2023-10-26'', r_employeeId = ''2001'', r_employeeName = ''Charlie Brown'',
        r_department = ''Engineering'', r_date = daysFromCivil 2023 10 26,
        timeIn = Some (utcInstant 2023 10 26 8 15), breakOut = Some (utcInstant 2023 10 26 12 5),
        breakIn = Some (utcInstant 2023 10 26 13 10), timeOut = Some (utcInstant 2023 10 26 17 15),
        onDuty = None, scanLocation = None, isOutOfRange = None \<rparr>,
      \<lparr> r_id = ''2002-2023-10-27'', r_employeeId = ''2002'', r_employeeName = ''Diana Miller'',
        r_department = ''Engineering'', r_date = daysFromCivil 2023 10 27,
        timeIn = Some (utcInstant 2023 10 27 8 0), breakOut = None,
        breakIn = None, timeOut = None,
        onDuty = None, scanLocation = None, isOutOfRange = None \<rparr>]"

definition initialLeaveRecords :: "LeaveRecord list" where
  "initialLeaveRecords =
     [\<lparr> l_id = ''leave-1'', l_employeeId = ''1002'', l_employeeName = ''Bob Williams'',
        l_department = ''Admin Office'', l_startDate = daysFromCivil 2023 11 1,
        l_endDate = daysFromCivil 2023 11 2, l_primaryLeaveType = ''Vacation'',
        l_status = Approved \<rparr>,
      \<lparr> l_id = ''leave-2'', l_employeeId = ''2002'', l_employeeName = ''Diana Miller'',
        l_department = ''Engineering'', l_startDate = daysFromCivil 2023 11 5,
        l_endDate = daysFromCivil 2023 11 5, l_primaryLeaveType = ''Sick'',
        l_status = Pending \<rparr>,
      \<lparr> l_id = ''leave-3'', l_employeeId = ''4001'', l_employeeName = ''Hannah Martinez'',
        l_department = ''Finance'', l_startDate = daysFromCivil 2023 10 30,
        l_endDate = daysFromCivil 2023 10 30, l_primaryLeaveType = ''Special Privilege'',
        l_status = Rejected \<rparr>]"

definition initialNotifications :: "AppNotification list" where
  "initialNotifications =
     [\<lparr> n_id = ''notif-1'', n_recipientId = ''admin'',
        n_message = ''Charlie Brown filed a Vacation Leave.'', n_read = False,
        n_createdAt = utcInstant 2023 10 26 10 0 \<rparr>,
      \<lparr> n_id = ''notif-2'', n_recipientId = ''2001'',
        n_message = ''Your leave request for Nov 10 has been approved.'', n_read = True,
        n_createdAt = utcInstant 2023 10 25 11 0 \<rparr>]"

definition initialState :: app_state where
  "initialState =
     \<lparr> employees = initialEmployees, departments = initialDepartments,
       dailyRecords = initialDailyRecords, leaveRecords = initialLeaveRecords,
       notifications = initialNotifications \<rparr>"

section \<open>Notions of the specification\<close>

text \<open>
  The punch sequence and the window table of the specification, written from its
  words, to be compared with what \<open>timeLogging\<close> does.
\<close>

definition spec_nextPunch :: "DailyTimeRecord \<Rightarrow> punch option" where
  "spec_nextPunch rec =
     (if timeIn rec = None then Some TimeIn
      else if breakOut rec = None then Some BreakOut
      else if breakIn rec = None then Some BreakIn
      else if timeOut rec = None then Some TimeOut
      else None)"

fun spec_window :: "punch \<Rightarrow> (int \<times> int) \<times> (int \<times> int)" where
  "spec_window TimeIn = ((6, 0), (8, 0))"
| "spec_window BreakOut = ((12, 0), (12, 30))"
| "spec_window BreakIn = ((12, 31), (13, 0))"
| "spec_window TimeOut = ((17, 0), (23, 0))"

text \<open>
  A window is evaluated against the date of the scan: its bounds are the wall-clock
  times of the table, set on \<open>new Date(todayStr)\<close>.
\<close>

definition windowStart :: "scan_env \<Rightarrow> punch \<Rightarrow> instant" where
  "windowStart env p =
     (case spec_window p of ((h, m), _) \<Rightarrow>
        setHours (tz env) (newDate (toISODate (now env))) h m 0 0)"

definition windowEnd :: "scan_env \<Rightarrow> punch \<Rightarrow> instant" where
  "windowEnd env p =
     (case spec_window p of (_, (h, m)) \<Rightarrow>
        setHours (tz env) (newDate (toISODate (now env))) h m 0 0)"

definition inWindow :: "scan_env \<Rightarrow> punch \<Rightarrow> bool" where
  "inWindow env p \<longleftrightarrow> windowStart env p \<le> now env \<and> now env \<le> windowEnd env p"

text \<open>The wall-clock reading of the scan lies between the two times of the table.\<close>

definition wallClockInWindow :: "scan_env \<Rightarrow> punch \<Rightarrow> bool" where
  "wallClockInWindow env p =
     (case spec_window p of ((h1, m1), (h2, m2)) \<Rightarrow>
        hm h1 m1 \<le> wallClock (tz env) (now env) \<and> wallClock (tz env) (now env) \<le> hm h2 m2)"

text \<open>
  The window in the words of the specification: the two wall-clock times of the table,
  in local time, on the calendar day that is the date of the record.
\<close>

definition localDay :: "int \<Rightarrow> instant \<Rightarrow> isodate" where
  "localDay tzv t = (t + tzv) div msPerDay"

definition spec_windowStart :: "int \<Rightarrow> isodate \<Rightarrow> punch \<Rightarrow> instant" where
  "spec_windowStart tzv date p =
     (case spec_window p of ((h, m), _) \<Rightarrow> date * msPerDay + hm h m - tzv)"

definition spec_windowEnd :: "int \<Rightarrow> isodate \<Rightarrow> punch \<Rightarrow> instant" where
  "spec_windowEnd tzv date p =
     (case spec_window p of (_, (h, m)) \<Rightarrow> date * msPerDay + hm h m - tzv)"

definition spec_inWindow :: "int \<Rightarrow> isodate \<Rightarrow> punch \<Rightarrow> instant \<Rightarrow> bool" where
  "spec_inWindow tzv date p t \<longleftrightarrow>
     spec_windowStart tzv date p \<le> t \<and> t \<le> spec_windowEnd tzv date p"

fun setPunch :: "punch \<Rightarrow> instant \<Rightarrow> DailyTimeRecord \<Rightarrow> DailyTimeRecord" where
  "setPunch TimeIn t rec = rec\<lparr> timeIn := Some t \<rparr>"
| "setPunch BreakOut t rec = rec\<lparr> breakOut := Some t \<rparr>"
| "setPunch BreakIn t rec = rec\<lparr> breakIn := Some t \<rparr>"
| "setPunch TimeOut t rec = rec\<lparr> timeOut := Some t \<rparr>"

text \<open>Steps 1 to 3 of the handler pass, for this employee and this department.\<close>

definition passesChecks ::
  "app_state \<Rightarrow> payload \<Rightarrow> User \<Rightarrow> EmployeeInfo \<Rightarrow> Department \<Rightarrow> bool" where
  "passesChecks st decodedData user emp dept \<longleftrightarrow>
     find (\<lambda>e. Some (e_id e) = u_employeeId user) (employees st) = Some emp
     \<and> decodedData = Payload (Some (e_department emp))
     \<and> find (\<lambda>d. d_name d = e_department emp) (departments st) = Some dept"

text \<open>The record a scan works on: today's record if there is one, a fresh one if not.\<close>

definition currentRecord :: "app_state \<Rightarrow> EmployeeInfo \<Rightarrow> isodate \<Rightarrow> DailyTimeRecord" where
  "currentRecord st emp todayStr =
     (case findRecord (dailyRecords st) emp todayStr of
        None \<Rightarrow> newRecord emp todayStr
      | Some r \<Rightarrow> r)"

text \<open>The central invariant: no two daily records share employee and date.\<close>

definition oneRecordPerDay :: "DailyTimeRecord list \<Rightarrow> bool" where
  "oneRecordPerDay recs \<longleftrightarrow> distinct (map (\<lambda>r. (r_employeeId r, r_date r)) recs)"

text \<open>The out-of-range notification for one recipient.\<close>

definition outOfRangeNotice ::
  "scan_env \<Rightarrow> EmployeeInfo \<Rightarrow> Department \<Rightarrow> number \<Rightarrow> string \<Rightarrow> AppNotification" where
  "outOfRangeNotice env emp dept distance roleId =
     \<lparr> n_id = ''notif-'' @ showInt (idClock env roleId) @ ''-'' @ roleId,
       n_recipientId = roleId,
       n_message = e_name emp @ '' scanned '' @ showNumber (arith env) (Math_round distance)
         @ ''m away from the '' @ d_name dept @ '' office.'',
       n_read = False,
       n_createdAt = createdClock env roleId \<rparr>"

text \<open>The two ways the handler stores the updated record.\<close>

definition upsert ::
  "DailyTimeRecord list \<Rightarrow> bool \<Rightarrow> DailyTimeRecord \<Rightarrow> DailyTimeRecord \<Rightarrow> DailyTimeRecord list" where
  "upsert recs createNewRecord record updatedRecord =
     (if createNewRecord then recs @ [updatedRecord]
      else map (\<lambda>r. if r_id r = r_id record then updatedRecord else r) recs)"


text \<open>The overlap check in the words of the specification.\<close>

definition spec_hasOverlap ::
  "LeaveRecord list \<Rightarrow> string \<Rightarrow> isodate \<Rightarrow> isodate \<Rightarrow> string option \<Rightarrow> bool" where
  "spec_hasOverlap leaveRecs employeeId startDate endDate excludeRecordId \<longleftrightarrow>
     (\<exists>other \<in> set leaveRecs.
        l_employeeId other = employeeId
        \<and> l_status other \<noteq> Rejected
        \<and> Some (l_id other) \<noteq> excludeRecordId
        \<and> startDate \<le> l_endDate other \<and> endDate \<ge> l_startDate other)"

text \<open>
  The great-circle distance of the specification: the haversine formula on a sphere of
  radius 6371000 m, for coordinates in degrees.
\<close>

definition spec_haversine :: "real \<Rightarrow> real \<Rightarrow> real \<Rightarrow> real \<Rightarrow> real" where
  "spec_haversine lat1 lon1 lat2 lon2 =
     2 * 6371000
       * arcsin (sqrt ((sin ((lat2 - lat1) * pi / 180 / 2))\<^sup>2
                       + cos (lat1 * pi / 180) * cos (lat2 * pi / 180)
                         * (sin ((lon2 - lon1) * pi / 180 / 2))\<^sup>2))"

text \<open>
  The arithmetic without rounding: every operation returns the exact real result, and
  NaN where the real function has none. No runtime computes with it; it says what the
  expression of \<open>calculateDistance\<close> denotes, and it gives runs with concrete numbers.
\<close>

definition atan2 :: "real \<Rightarrow> real \<Rightarrow> real" where
  "atan2 y x =
     (if x > 0 then arctan (y / x)
      else if x < 0 then (if y \<ge> 0 then arctan (y / x) + pi else arctan (y / x) - pi)
      else if y > 0 then pi / 2
      else if y < 0 then - pi / 2
      else 0)"

fun exact1 :: "(real \<Rightarrow> real) \<Rightarrow> number \<Rightarrow> number" where
  "exact1 f (Num x) = Num (f x)"
| "exact1 f _ = NaN"

fun exact2 :: "(real \<Rightarrow> real \<Rightarrow> real) \<Rightarrow> number \<Rightarrow> number \<Rightarrow> number" where
  "exact2 f (Num x) (Num y) = Num (f x y)"
| "exact2 f _ _ = NaN"

definition exactArith :: arithmetic where
  "exactArith =
     \<lparr> fmul = exact2 (*), fdiv = exact2 (/), fadd = exact2 (+), fsub = exact2 (-),
       fsin = exact1 sin, fcos = exact1 cos,
       fsqrt = (\<lambda>n. case n of Num x \<Rightarrow> if x < 0 then NaN else Num (sqrt x) | _ \<Rightarrow> NaN),
       fatan2 = exact2 atan2, fpi = Num pi, ftext = (\<lambda>_. []) \<rparr>"

section \<open>Sample inputs\<close>

text \<open>
  Employees, departments and positions of the initial data, and scan environments whose
  clock readings all show one instant and whose arithmetic is the one without rounding,
  used to run the handler on concrete inputs.
\<close>

definition scanEnv :: "instant \<Rightarrow> int \<Rightarrow> coords option \<Rightarrow> scan_env" where
  "scanEnv t z pos =
     \<lparr> now = t, tz = z, position = pos, idClock = (\<lambda>_. t), createdClock = (\<lambda>_. t),
       arith = exactArith \<rparr>"

text \<open>
  A stand-in arithmetic in which every operation returns the number \<open>d\<close>: it runs the
  handler at a distance of one's choosing.
\<close>

definition constArith :: "real \<Rightarrow> arithmetic" where
  "constArith d =
     \<lparr> fmul = (\<lambda>_ _. Num d), fdiv = (\<lambda>_ _. Num d), fadd = (\<lambda>_ _. Num d),
       fsub = (\<lambda>_ _. Num d), fsin = (\<lambda>_. Num d), fcos = (\<lambda>_. Num d),
       fsqrt = (\<lambda>_. Num d), fatan2 = (\<lambda>_ _. Num d), fpi = Num d, ftext = (\<lambda>_. []) \<rparr>"

definition userOf :: "string \<Rightarrow> string \<Rightarrow> User" where
  "userOf n i = \<lparr> u_username = n, u_employeeId = Some i \<rparr>"

definition diana :: EmployeeInfo where
  "diana = \<lparr> e_id = ''2002'', e_name = ''Diana Miller'', e_department = ''Engineering'', e_role = RoleUser \<rparr>"

definition engineering :: Department where
  "engineering = \<lparr> d_name = ''Engineering'', d_location = Some \<lparr> latitude = 8.5735, longitude = 124.7813 \<rparr> \<rparr>"

definition alice :: EmployeeInfo where
  "alice = \<lparr> e_id = ''1001'', e_name = ''Alice Johnson'', e_department = ''Admin Office'', e_role = RoleManager \<rparr>"

definition adminOffice :: Department where
  "adminOffice = \<lparr> d_name = ''Admin Office'', d_location = Some \<lparr> latitude = 8.5733, longitude = 124.7811 \<rparr> \<rparr>"

text \<open>The point opposite the Admin Office on the globe.\<close>

definition farFromAdminOffice :: coords where
  "farFromAdminOffice = \<lparr> latitude = - 8.5733, longitude = - 55.2189 \<rparr>"

definition bob :: EmployeeInfo where
  "bob = \<lparr> e_id = ''1002'', e_name = ''Bob Williams'', e_department = ''Admin Office'', e_role = RoleUser \<rparr>"

text \<open>
  The initial state with Diana Miller's record of 2023-10-27 carrying Time In, Break Out
  and Break In.
\<close>

definition backFromBreak :: app_state where
  "backFromBreak =
     initialState\<lparr> dailyRecords := initialDailyRecords
       [2 := (initialDailyRecords ! 2)
               \<lparr> breakOut := Some (utcInstant 2023 10 27 12 5),
                 breakIn := Some (utcInstant 2023 10 27 12 45) \<rparr>] \<rparr>"

text \<open>The state after special duty was scheduled twice for Alice Johnson on 2023-10-28.\<close>

definition onDutyRecord :: DailyTimeRecord where
  "onDutyRecord =
     \<lparr> r_id = ''1001-2023-10-28'', r_employeeId = ''1001'', r_employeeName = ''Alice Johnson'',
       r_department = ''Admin Office'', r_date = daysFromCivil 2023 10 28,
       timeIn = None, breakOut = None, breakIn = None, timeOut = None,
       onDuty = Some True, scanLocation = None, isOutOfRange = None \<rparr>"

definition scheduledTwice :: app_state where
  "scheduledTwice =
     initialState\<lparr> dailyRecords := initialDailyRecords @ [onDutyRecord, onDutyRecord] \<rparr>"

definition leaveOf ::
  "string \<Rightarrow> EmployeeInfo \<Rightarrow> isodate \<Rightarrow> isodate \<Rightarrow> LeaveStatus \<Rightarrow> LeaveRecord" where
  "leaveOf i emp startDate endDate status =
     \<lparr> l_id = i, l_employeeId = e_id emp, l_employeeName = e_name emp,
       l_department = e_department emp, l_startDate = startDate, l_endDate = endDate,
       l_primaryLeaveType = ''Vacation'', l_status = status \<rparr>"

definition hannah :: EmployeeInfo where
  "hannah = \<lparr> e_id = ''4001'', e_name = ''Hannah Martinez'', e_department = ''Finance'', e_role = RoleUser \<rparr>"

section \<open>Verified properties\<close>

subsection \<open>Distance\<close>

text \<open>
  Without rounding, the expression of \<open>calculateDistance\<close> is the haversine distance:
  the term under the square roots lies between 0 and 1, and \<open>atan2\<close> of the two roots
  is the arc sine of the first.
\<close>

lemma haversine_term_range:
  fixes p1 p2 l :: real
  defines "a \<equiv> (sin ((p2 - p1) / 2))\<^sup>2 + cos p1 * cos p2 * (sin (l / 2))\<^sup>2"
  shows "0 \<le> a \<and> a \<le> 1"
proof -
  define t where "t = (sin (l / 2))\<^sup>2"
  define e0 where "e0 = (1 - cos (p2 - p1)) / 2"
  define e1 where "e1 = (1 + cos (p1 + p2)) / 2"
  have t: "0 \<le> t" "t \<le> 1" by (simp_all add: t_def abs_square_le_1)
  have c0: "0 \<le> 1 - cos (p2 - p1)" "1 - cos (p2 - p1) \<le> 2"
    using cos_le_one [of "p2 - p1"] cos_ge_minus_one [of "p2 - p1"] by linarith+
  have e0: "0 \<le> e0" "e0 \<le> 1" using c0 by (simp_all add: e0_def)
  have c1: "0 \<le> 1 + cos (p1 + p2)" "1 + cos (p1 + p2) \<le> 2"
    using cos_le_one [of "p1 + p2"] cos_ge_minus_one [of "p1 + p2"] by linarith+
  have e1: "0 \<le> e1" "e1 \<le> 1" using c1 by (simp_all add: e1_def)
  have h: "2 * ((p2 - p1) / 2) = p2 - p1" by simp
  from cos_double_sin [of "(p2 - p1) / 2"]
  have "cos (p2 - p1) = 1 - 2 * (sin ((p2 - p1) / 2))\<^sup>2" unfolding h .
  then have s: "(sin ((p2 - p1) / 2))\<^sup>2 = e0" by (simp add: e0_def)
  have "a = (1 - t) * e0 + t * e1"
    unfolding a_def s t_def [symmetric]
    by (simp add: e0_def e1_def cos_diff cos_add field_simps)
  moreover have "0 \<le> (1 - t) * e0 + t * e1" using t e0 e1 by simp
  moreover have "(1 - t) * e0 + t * e1 \<le> (1 - t) * 1 + t * 1"
    using t e0 e1 by (intro add_mono mult_left_mono) simp_all
  ultimately show ?thesis by simp
qed

lemma atan2_arcsin:
  assumes "0 \<le> a" "a \<le> 1"
  shows "atan2 (sqrt a) (sqrt (1 - a)) = arcsin (sqrt a)"
proof (cases "a = 1")
  case True
  then show ?thesis by (simp add: atan2_def)
next
  case False
  with assms have lt: "a < 1" by simp
  let ?x = "sqrt a"
  have x: "0 \<le> ?x" "?x < 1" using assms lt by (simp_all add: real_sqrt_lt_1_iff)
  let ?th = "arcsin ?x"
  have b: "- (pi / 2) < ?th" "?th < pi / 2" using arcsin_lt_bounded [of ?x] x by simp_all
  have c: "cos ?th = sqrt (1 - a)" using cos_arcsin [of ?x] x assms by simp
  have s: "sin ?th = ?x" using x by (intro sin_arcsin) linarith+
  have "tan ?th = ?x / sqrt (1 - a)" by (simp add: tan_def s c)
  with b have "arctan (?x / sqrt (1 - a)) = ?th" by (metis arctan_tan)
  moreover have "sqrt (1 - a) > 0" using lt by simp
  ultimately show ?thesis by (simp add: atan2_def)
qed

lemma calculateDistance_exact:
  "calculateDistance exactArith lat1 lon1 lat2 lon2 = Num (spec_haversine lat1 lon1 lat2 lon2)"
proof -
  define a where "a = (sin ((lat2 * pi / 180 - lat1 * pi / 180) / 2))\<^sup>2
      + cos (lat1 * pi / 180) * cos (lat2 * pi / 180) * (sin ((lon2 - lon1) * pi / 180 / 2))\<^sup>2"
  have r: "0 \<le> a" "a \<le> 1"
    using haversine_term_range [of "lat2 * pi / 180" "lat1 * pi / 180" "(lon2 - lon1) * pi / 180"]
    by (simp_all add: a_def)
  have e: "(lat2 - lat1) * pi / 180 / 2 = (lat2 * pi / 180 - lat1 * pi / 180) / 2"
    by (simp add: field_simps)
  have a': "sin ((lat2 - lat1) * pi / 180 / 2) * sin ((lat2 - lat1) * pi / 180 / 2)
          + cos (lat1 * pi / 180) * cos (lat2 * pi / 180)
            * sin ((lon2 - lon1) * pi / 180 / 2) * sin ((lon2 - lon1) * pi / 180 / 2) = a"
    unfolding a_def e by (simp add: power2_eq_square)
  have a'': "(sin ((lat2 - lat1) * pi / 180 / 2))\<^sup>2
                       + cos (lat1 * pi / 180) * cos (lat2 * pi / 180)
                         * (sin ((lon2 - lon1) * pi / 180 / 2))\<^sup>2 = a"
    unfolding a_def e by simp
  show ?thesis
    unfolding calculateDistance_def Let_def spec_haversine_def a''
    using r atan2_arcsin [OF r] a'
    by (simp add: exactArith_def)
qed

lemma spec_haversine_antipode: "spec_haversine (- lat) (lon - 180) lat lon = 6371000 * pi"
proof -
  have a: "(lat - - lat) * pi / 180 / 2 = lat * pi / 180" by simp
  have b: "(lon - (lon - 180)) * pi / 180 / 2 = pi / 2" by simp
  have c: "cos (- lat * pi / 180) = cos (lat * pi / 180)"
    using cos_minus [of "lat * pi / 180"] by simp
  have "(sin (lat * pi / 180))\<^sup>2 + cos (lat * pi / 180) * cos (lat * pi / 180) = 1"
    using sin_cos_squared_add [of "lat * pi / 180"] by (simp add: power2_eq_square)
  then show ?thesis
    unfolding spec_haversine_def a b c by simp
qed

subsection \<open>The handler after its checks\<close>

lemma onScanSuccess_on_leave:
  assumes "passesChecks st decodedData user emp dept"
    and "employeeOnLeave (leaveRecords st) emp (toISODate (now env)) = Some l"
  shows "onScanSuccess st env decodedData user
           = (st\<lparr> notifications := notifications st @ snd (geolocationCheck env emp dept) \<rparr>,
              Inl (OnApprovedLeave (e_name emp) (l_primaryLeaveType l)))"
  using assms
  by (simp add: onScanSuccess_def passesChecks_def Let_def split: prod.splits)

lemma onScanSuccess_no_leave:
  assumes "passesChecks st decodedData user emp dept"
    and "employeeOnLeave (leaveRecords st) emp (toISODate (now env)) = None"
  shows "onScanSuccess st env decodedData user
           = (case timeLogging env emp (fst (geolocationCheck env emp dept))
                     (currentRecord st emp (toISODate (now env))) of
                Inl err \<Rightarrow>
                  (st\<lparr> notifications := notifications st @ snd (geolocationCheck env emp dept) \<rparr>,
                   Inl err)
              | Inr (updatedRecord, msg) \<Rightarrow>
                  (st\<lparr> notifications := notifications st @ snd (geolocationCheck env emp dept),
                       dailyRecords := upsert (dailyRecords st)
                         (findRecord (dailyRecords st) emp (toISODate (now env)) = None)
                         (currentRecord st emp (toISODate (now env))) updatedRecord \<rparr>,
                   Inr \<lparr> message = msg @ suffixes env (fst (geolocationCheck env emp dept)),
                         recordId = r_id (currentRecord st emp (toISODate (now env))) \<rparr>))"
  using assms
  by (simp add: onScanSuccess_def passesChecks_def Let_def currentRecord_def upsert_def
        split: prod.splits sum.splits)


subsection \<open>Time logging\<close>

lemma timeLogging_standard:
  assumes "onDuty rec \<noteq> Some True"
  shows "case spec_nextPunch rec of
           None \<Rightarrow> timeLogging env emp oor rec = Inl (AlreadyComplete (e_name emp))
         | Some p \<Rightarrow>
             if inWindow env p
             then \<exists>msg. timeLogging env emp oor rec
                     = Inr (setScanDetails env oor (setPunch p (now env) rec), msg)
             else timeLogging env emp oor rec = Inl (OutsideAllowedWindow p)"
  using assms
  by (auto simp: timeLogging_def spec_nextPunch_def inWindow_def windowStart_def
        windowEnd_def Let_def)

lemma window_wallClock:
  assumes "setHours tzv t h1 m1 0 0 \<le> n" "n \<le> setHours tzv t h2 m2 0 0"
    and "0 \<le> hm h1 m1" "hm h1 m1 \<le> hm h2 m2" "hm h2 m2 < msPerDay"
  shows "hm h1 m1 \<le> wallClock tzv n \<and> wallClock tzv n \<le> hm h2 m2"
proof -
  define M where "M = ((t + tzv) div msPerDay) * msPerDay"
  have a: "M + hm h1 m1 \<le> n + tzv" "n + tzv \<le> M + hm h2 m2"
    using assms(1,2) by (simp_all add: setHours_def Let_def hm_def M_def)
  define r where "r = n + tzv - M"
  have r: "0 \<le> r" "r < msPerDay" "hm h1 m1 \<le> r" "r \<le> hm h2 m2"
    using a assms(3-5) by (simp_all add: r_def)
  have "n + tzv = r + ((t + tzv) div msPerDay) * msPerDay" by (simp add: r_def M_def)
  then have "(n + tzv) mod msPerDay = r mod msPerDay" by (metis mod_mult_self1)
  also have "\<dots> = r" using r by simp
  finally show ?thesis using r by (simp add: wallClock_def)
qed

lemma inWindow_wallClock:
  assumes "inWindow env p"
  shows "wallClockInWindow env p"
proof -
  obtain h1 m1 h2 m2 where w: "spec_window p = ((h1, m1), (h2, m2))"
    by (metis prod.exhaust)
  have b: "0 \<le> hm h1 m1" "hm h1 m1 \<le> hm h2 m2" "hm h2 m2 < msPerDay"
    using w by (cases p; simp add: hm_def msPerDay_def)+
  have "setHours (tz env) (newDate (toISODate (now env))) h1 m1 0 0 \<le> now env"
       "now env \<le> setHours (tz env) (newDate (toISODate (now env))) h2 m2 0 0"
    using assms w by (simp_all add: inWindow_def windowStart_def windowEnd_def)
  from window_wallClock [OF this b] show ?thesis
    using w by (simp add: wallClockInWindow_def)
qed

lemma setScanDetails_key [simp]:
  "r_id (setScanDetails env oor rec) = r_id rec"
  "r_employeeId (setScanDetails env oor rec) = r_employeeId rec"
  "r_date (setScanDetails env oor rec) = r_date rec"
  by (simp_all add: setScanDetails_def)

lemma setPunch_key [simp]:
  "r_id (setPunch p t rec) = r_id rec"
  "r_employeeId (setPunch p t rec) = r_employeeId rec"
  "r_date (setPunch p t rec) = r_date rec"
  by (cases p; simp)+

lemma timeLogging_key:
  assumes "timeLogging env emp oor rec = Inr (u, msg)"
  shows "r_id u = r_id rec \<and> r_employeeId u = r_employeeId rec \<and> r_date u = r_date rec"
  using assms
  by (auto simp: timeLogging_def Let_def setScanDetails_def split: if_splits)

subsection \<open>Lookup and upsert\<close>

lemma currentRecord_key:
  "r_employeeId (currentRecord st emp d) = e_id emp \<and> r_date (currentRecord st emp d) = d"
  by (auto simp: currentRecord_def findRecord_def newRecord_def find_Some_iff
        split: option.splits)

lemma find_append_cases:
  "find P (xs @ ys) = (case find P xs of None \<Rightarrow> find P ys | Some x \<Rightarrow> Some x)"
  by (induction xs) auto

lemma find_map_replace:
  assumes "find P xs = Some x" "P u"
  shows "find P (map (\<lambda>r. if f r = f x then u else r) xs) = Some u"
  using assms
proof (induction xs)
  case Nil
  then show ?case by simp
next
  case (Cons a xs)
  then show ?case by (cases "P a") (auto split: if_splits)
qed

lemma findRecord_upsert:
  assumes "r_employeeId u = e_id emp" "r_date u = d"
  shows "findRecord (upsert (dailyRecords st) (findRecord (dailyRecords st) emp d = None)
            (currentRecord st emp d) u) emp d = Some u"
proof (cases "findRecord (dailyRecords st) emp d")
  case None
  then have "find (\<lambda>r. r_employeeId r = e_id emp \<and> r_date r = d) (dailyRecords st @ [u]) = Some u"
    using assms by (simp add: findRecord_def find_append_cases)
  with None show ?thesis
    by (simp add: upsert_def findRecord_def)
next
  case (Some x)
  then show ?thesis
    using assms find_map_replace [of "\<lambda>r. r_employeeId r = e_id emp \<and> r_date r = d" "dailyRecords st" x u r_id]
    by (simp add: upsert_def findRecord_def currentRecord_def)
qed


subsection \<open>The standard track\<close>

text \<open>
  What the handler does on a record of the standard track, in terms of the bounds it
  builds itself: the next unset punch of the sequence Time In, Break Out, Break In,
  Time Out is the only eligible one; the scan writes it when \<open>now\<close> lies between the
  two bounds, and then the local wall-clock reading lies between the times of the table;
  otherwise it throws the window error of that punch, or the completion error when all
  four punches are set. A failed scan leaves the daily records as they were.
\<close>

lemma standard_track_punch_order:
  assumes "passesChecks st decodedData user emp dept"
    and "employeeOnLeave (leaveRecords st) emp (toISODate (now env)) = None"
    and "onDuty (currentRecord st emp (toISODate (now env))) \<noteq> Some True"
  shows "case spec_nextPunch (currentRecord st emp (toISODate (now env))) of
           None \<Rightarrow>
             snd (onScanSuccess st env decodedData user) = Inl (AlreadyComplete (e_name emp))
             \<and> dailyRecords (fst (onScanSuccess st env decodedData user)) = dailyRecords st
         | Some p \<Rightarrow>
             if inWindow env p then
               (\<exists>ok. snd (onScanSuccess st env decodedData user) = Inr ok)
               \<and> wallClockInWindow env p
               \<and> findRecord (dailyRecords (fst (onScanSuccess st env decodedData user)))
                    emp (toISODate (now env))
                   = Some (setScanDetails env (fst (geolocationCheck env emp dept))
                             (setPunch p (now env) (currentRecord st emp (toISODate (now env)))))
             else
               snd (onScanSuccess st env decodedData user) = Inl (OutsideAllowedWindow p)
               \<and> dailyRecords (fst (onScanSuccess st env decodedData user)) = dailyRecords st"
proof -
  let ?d = "toISODate (now env)"
  let ?rec = "currentRecord st emp ?d"
  let ?oor = "fst (geolocationCheck env emp dept)"
  note run = onScanSuccess_no_leave [OF assms(1,2)]
  note tl = timeLogging_standard [OF assms(3), of env emp ?oor]
  show ?thesis
  proof (cases "spec_nextPunch ?rec")
    case None
    with tl have "timeLogging env emp ?oor ?rec = Inl (AlreadyComplete (e_name emp))" by simp
    with None show ?thesis by (simp add: run)
  next
    case (Some p)
    show ?thesis
    proof (cases "inWindow env p")
      case True
      with tl Some obtain msg where
        t: "timeLogging env emp ?oor ?rec = Inr (setScanDetails env ?oor (setPunch p (now env) ?rec), msg)"
        by auto
      have k: "r_employeeId (setScanDetails env ?oor (setPunch p (now env) ?rec)) = e_id emp"
              "r_date (setScanDetails env ?oor (setPunch p (now env) ?rec)) = ?d"
        using currentRecord_key [of st emp ?d] by simp_all
      show ?thesis
        using Some True inWindow_wallClock [OF True] findRecord_upsert [OF k]
        by (simp add: run t)
    next
      case False
      with tl Some have "timeLogging env emp ?oor ?rec = Inl (OutsideAllowedWindow p)" by simp
      with Some False show ?thesis by (simp add: run)
    qed
  qed
qed

lemma ev_days [simp]:
  "daysFromCivil 2023 10 26 = 19656" "daysFromCivil 2023 10 27 = 19657"
  "daysFromCivil 2023 10 25 = 19655" "daysFromCivil 2023 10 30 = 19660"
  "daysFromCivil 2023 11 1 = 19662" "daysFromCivil 2023 11 2 = 19663"
  "daysFromCivil 2023 11 3 = 19664" "daysFromCivil 2023 11 4 = 19665"
  "daysFromCivil 2023 11 5 = 19666" "daysFromCivil 2023 11 10 = 19671"
  by (simp_all add: daysFromCivil_def)

text \<open>
  The comparisons with the bounds are not strict: a scan whose instant is exactly the
  start or exactly the end that the handler builds for the eligible punch succeeds and
  writes that punch.
\<close>

lemma window_bounds_inclusive:
  assumes "passesChecks st decodedData user emp dept"
    and "employeeOnLeave (leaveRecords st) emp (toISODate (now env)) = None"
    and "onDuty (currentRecord st emp (toISODate (now env))) \<noteq> Some True"
    and "spec_nextPunch (currentRecord st emp (toISODate (now env))) = Some p"
    and "now env = windowStart env p \<or> now env = windowEnd env p"
  shows "(\<exists>ok. snd (onScanSuccess st env decodedData user) = Inr ok)
         \<and> findRecord (dailyRecords (fst (onScanSuccess st env decodedData user)))
              emp (toISODate (now env))
             = Some (setScanDetails env (fst (geolocationCheck env emp dept))
                       (setPunch p (now env) (currentRecord st emp (toISODate (now env)))))"
proof -
  have le: "windowStart env p \<le> windowEnd env p"
    by (cases p) (simp_all add: windowStart_def windowEnd_def setHours_def Let_def)
  with assms(5) have w: "inWindow env p" by (auto simp: inWindow_def)
  let ?d = "toISODate (now env)"
  let ?rec = "currentRecord st emp ?d"
  let ?oor = "fst (geolocationCheck env emp dept)"
  note run = onScanSuccess_no_leave [OF assms(1,2)]
  from timeLogging_standard [OF assms(3), of env emp ?oor] assms(4) w obtain msg where
    t: "timeLogging env emp ?oor ?rec = Inr (setScanDetails env ?oor (setPunch p (now env) ?rec), msg)"
    by auto
  have k: "r_employeeId (setScanDetails env ?oor (setPunch p (now env) ?rec)) = e_id emp"
          "r_date (setScanDetails env ?oor (setPunch p (now env) ?rec)) = ?d"
    using currentRecord_key [of st emp ?d] by simp_all
  show ?thesis using findRecord_upsert [OF k] by (simp add: run t)
qed

lemma alice_passes:
  "passesChecks initialState (Payload (Some ''Admin Office'')) (userOf ''alice'' ''1001'') alice adminOffice"
  by (simp add: passesChecks_def initialState_def initialEmployees_def initialDepartments_def
        userOf_def alice_def adminOffice_def)

lemma alice_today:
  "toISODate (now (scanEnv (utcInstant 2023 10 27 h m) 0 pos)) = 19657" if "0 \<le> h * 3600000 + m * 60000" "h * 3600000 + m * 60000 < 86400000"
  using that by (simp add: scanEnv_def utcInstant_def toISODate_def msPerDay_def)

lemma alice_fresh:
  "currentRecord initialState alice 19657 = newRecord alice 19657"
  "employeeOnLeave (leaveRecords initialState) alice 19657 = None"
  by (simp_all add: currentRecord_def findRecord_def employeeOnLeave_def initialState_def
        initialDailyRecords_def initialLeaveRecords_def alice_def)

subsection \<open>The first scan of a day\<close>

text \<open>
  Claim C6. When the scanning employee has no record for today, a successful scan
  appends exactly one record to the daily records: the fresh record with timeIn set to
  the scan instant and the scan details attached; breakOut, breakIn and timeOut stay
  unset, and the scan instant lies in the Time In window 06:00 to 08:00.
\<close>

theorem first_scan_sets_timeIn_only:
  assumes "passesChecks st decodedData user emp dept"
    and "findRecord (dailyRecords st) emp (toISODate (now env)) = None"
    and "snd (onScanSuccess st env decodedData user) = Inr ok"
  shows "\<exists>created.
           dailyRecords (fst (onScanSuccess st env decodedData user)) = dailyRecords st @ [created]
           \<and> created = (newRecord emp (toISODate (now env)))
                \<lparr> timeIn := Some (now env), scanLocation := position env,
                  isOutOfRange := Some (fst (geolocationCheck env emp dept)) \<rparr>
           \<and> timeIn created = Some (now env)
           \<and> breakOut created = None \<and> breakIn created = None \<and> timeOut created = None
           \<and> recordId ok = r_id created
           \<and> inWindow env TimeIn \<and> wallClockInWindow env TimeIn"
proof -
  let ?d = "toISODate (now env)"
  let ?oor = "fst (geolocationCheck env emp dept)"
  have noleave: "employeeOnLeave (leaveRecords st) emp ?d = None"
  proof (cases "employeeOnLeave (leaveRecords st) emp ?d")
    case None then show ?thesis .
  next
    case (Some l)
    from onScanSuccess_on_leave [OF assms(1) Some] assms(3) show ?thesis by simp
  qed
  have cur: "currentRecord st emp ?d = newRecord emp ?d"
    using assms(2) by (simp add: currentRecord_def)
  have std: "onDuty (currentRecord st emp ?d) \<noteq> Some True"
    by (simp add: cur newRecord_def)
  have nxt: "spec_nextPunch (currentRecord st emp ?d) = Some TimeIn"
    by (simp add: cur newRecord_def spec_nextPunch_def)
  note run = onScanSuccess_no_leave [OF assms(1) noleave]
  have w: "inWindow env TimeIn"
  proof (rule ccontr)
    assume "\<not> inWindow env TimeIn"
    with timeLogging_standard [OF std, of env emp ?oor] nxt
    have "timeLogging env emp ?oor (currentRecord st emp ?d) = Inl (OutsideAllowedWindow TimeIn)"
      by simp
    with assms(3) show False by (simp add: run)
  qed
  with timeLogging_standard [OF std, of env emp ?oor] nxt obtain msg where
    t: "timeLogging env emp ?oor (currentRecord st emp ?d)
          = Inr (setScanDetails env ?oor (setPunch TimeIn (now env) (currentRecord st emp ?d)), msg)"
    by auto
  from t have t': "timeLogging env emp ?oor (newRecord emp ?d)
          = Inr (setScanDetails env ?oor (setPunch TimeIn (now env) (newRecord emp ?d)), msg)"
    by (simp only: cur)
  have "dailyRecords (fst (onScanSuccess st env decodedData user))
          = dailyRecords st @ [(newRecord emp ?d)\<lparr> timeIn := Some (now env),
               scanLocation := position env, isOutOfRange := Some ?oor \<rparr>]"
    using assms(2) by (simp add: run cur t' upsert_def setScanDetails_def)
  moreover have "recordId ok = r_id (newRecord emp ?d)"
    using assms(3) by (auto simp add: run cur t')
  ultimately show ?thesis
    using w inWindow_wallClock [OF w] by (simp add: newRecord_def)
qed

theorem first_scan_sets_timeIn_only_witness:
  "passesChecks initialState (Payload (Some ''Admin Office'')) (userOf ''alice'' ''1001'') alice adminOffice
   \<and> findRecord (dailyRecords initialState) alice
        (toISODate (now (scanEnv (utcInstant 2023 10 27 7 30) 0 None))) = None
   \<and> snd (onScanSuccess initialState (scanEnv (utcInstant 2023 10 27 7 30) 0 None)
           (Payload (Some ''Admin Office'')) (userOf ''alice'' ''1001''))
       = Inr \<lparr> message = ''Time In for Alice Johnson successful. (Could not get location. Scan will proceed without verification.)'',
               recordId = ''1001-2023-10-27'' \<rparr>
   \<and> dailyRecords (fst (onScanSuccess initialState (scanEnv (utcInstant 2023 10 27 7 30) 0 None)
           (Payload (Some ''Admin Office'')) (userOf ''alice'' ''1001'')))
       = initialDailyRecords @
         [\<lparr> r_id = ''1001-2023-10-27'', r_employeeId = ''1001'', r_employeeName = ''Alice Johnson'',
            r_department = ''Admin Office'', r_date = 19657,
            timeIn = Some (utcInstant 2023 10 27 7 30), breakOut = None, breakIn = None,
            timeOut = None, onDuty = None, scanLocation = None, isOutOfRange = Some False \<rparr>]"
proof -
  let ?env = "scanEnv (utcInstant 2023 10 27 7 30) 0 None"
  let ?ok = "\<lparr> message = ''Time In for Alice Johnson successful. (Could not get location. Scan will proceed without verification.)'',
               recordId = ''1001-2023-10-27'' \<rparr>"
  have d: "toISODate (now ?env) = 19657" by (rule alice_today) simp_all
  have ds: "dateString 19657 = ''2023-10-27''" by code_simp
  have h2: "findRecord (dailyRecords initialState) alice (toISODate (now ?env)) = None"
    unfolding d
    by (simp add: findRecord_def initialState_def initialDailyRecords_def alice_def)
  have g: "geolocationCheck ?env alice adminOffice = (False, [])"
    by (simp add: geolocationCheck_def scanEnv_def)
  have w: "inWindow ?env TimeIn"
    by (simp add: inWindow_def windowStart_def windowEnd_def scanEnv_def utcInstant_def
          toISODate_def newDate_def setHours_def msPerDay_def)
  have std: "onDuty (newRecord alice 19657) \<noteq> Some True" by (simp add: newRecord_def)
  from timeLogging_standard [OF std, of ?env alice False] w
  have t: "timeLogging ?env alice False (newRecord alice 19657)
            = Inr (setScanDetails ?env False (setPunch TimeIn (now ?env) (newRecord alice 19657)),
                   ''Time In for Alice Johnson successful.'')"
    by (auto simp: spec_nextPunch_def newRecord_def timeLogging_def Let_def alice_def
          inWindow_def windowStart_def windowEnd_def)
  have nl: "employeeOnLeave (leaveRecords initialState) alice (toISODate (now ?env)) = None"
    unfolding d by (rule alice_fresh)
  have res: "onScanSuccess initialState ?env (Payload (Some ''Admin Office'')) (userOf ''alice'' ''1001'')
     = (initialState\<lparr> notifications := notifications initialState @ [],
          dailyRecords := upsert (dailyRecords initialState) True (newRecord alice 19657)
             (setScanDetails ?env False (setPunch TimeIn (now ?env) (newRecord alice 19657))) \<rparr>,
        Inr \<lparr> message = ''Time In for Alice Johnson successful.'' @ suffixes ?env False,
              recordId = r_id (newRecord alice 19657) \<rparr>)"
    using h2 by (simp add: onScanSuccess_no_leave [OF alice_passes nl] d alice_fresh g t)
  have h3: "snd (onScanSuccess initialState ?env (Payload (Some ''Admin Office'')) (userOf ''alice'' ''1001'')) = Inr ?ok"
    unfolding res
    by (simp add: suffixes_def scanEnv_def locationErrorText_def newRecord_def ds alice_def)
  have recs: "dailyRecords (fst (onScanSuccess initialState ?env (Payload (Some ''Admin Office'')) (userOf ''alice'' ''1001'')))
       = initialDailyRecords @
         [\<lparr> r_id = ''1001-2023-10-27'', r_employeeId = ''1001'', r_employeeName = ''Alice Johnson'',
            r_department = ''Admin Office'', r_date = 19657,
            timeIn = Some (utcInstant 2023 10 27 7 30), breakOut = None, breakIn = None,
            timeOut = None, onDuty = None, scanLocation = None, isOutOfRange = Some False \<rparr>]"
  proof -
    from first_scan_sets_timeIn_only [OF alice_passes h2 h3]
    have "dailyRecords (fst (onScanSuccess initialState ?env (Payload (Some ''Admin Office'')) (userOf ''alice'' ''1001'')))
            = dailyRecords initialState @
              [(newRecord alice 19657)\<lparr> timeIn := Some (now ?env), scanLocation := position ?env,
                  isOutOfRange := Some False \<rparr>]"
      by (simp add: d g)
    then show ?thesis
      by (simp add: newRecord_def ds alice_def scanEnv_def initialState_def)
  qed
  from alice_passes h2 h3 recs show ?thesis by simp
qed

subsection \<open>Geofence\<close>

text \<open>Decimal digits of concrete numbers, by rewriting.\<close>

lemma digit_chars:
  "char_of (48 :: nat) = CHR ''0''" "char_of (49 :: nat) = CHR ''1''"
  "char_of (50 :: nat) = CHR ''2''" "char_of (51 :: nat) = CHR ''3''"
  "char_of (52 :: nat) = CHR ''4''" "char_of (53 :: nat) = CHR ''5''"
  "char_of (54 :: nat) = CHR ''6''" "char_of (55 :: nat) = CHR ''7''"
  "char_of (56 :: nat) = CHR ''8''" "char_of (57 :: nat) = CHR ''9''"
  by code_simp+
lemma showNat_small: "showNat 0 = ''0''" "showNat (Suc 0) = ''1''"
  by (simp_all add: showNat.simps [of 0] showNat.simps [of "Suc 0"] digit_chars)
lemma showNat_numeral:
  "showNat (numeral k) =
     (if (numeral k :: nat) < 10 then [char_of (48 + numeral k :: nat)]
      else showNat (numeral k div 10) @ [char_of (48 + numeral k mod 10 :: nat)])"
  by (subst showNat.simps) simp
lemmas showInt_eval = showInt_def showNat_numeral showNat_small digit_chars
lemma jsGreater_Num [simp]: "jsGreater (Num d) y \<longleftrightarrow> d > y"
  by (simp add: jsGreater_def)

lemma jsGreater_NaN [simp]: "\<not> jsGreater NaN y"
  by (simp add: jsGreater_def)

lemma showNumber_rounded:
  assumes "\<bar>round d\<bar> < 10 ^ 21"
  shows "showNumber ar (Math_round (Num d)) = showInt (round d)"
proof -
  have "\<bar>real_of_int (round d)\<bar> < 10 ^ 21"
    using assms by (metis of_int_abs of_int_less_numeral_power_cancel_iff)
  then show ?thesis by (simp add: showNumber_def Math_round_def)
qed

lemma geolocationCheck_out_of_range:
  assumes "position env = Some pos" "d_location dept = Some loc"
    and "jsGreater (calculateDistance (arith env) (latitude pos) (longitude pos)
                      (latitude loc) (longitude loc)) LOCATION_THRESHOLD_METERS"
  shows "geolocationCheck env emp dept
           = (True, map (outOfRangeNotice env emp dept
                 (calculateDistance (arith env) (latitude pos) (longitude pos)
                    (latitude loc) (longitude loc)))
                 [''admin'', ''it''])"
  using assms by (simp add: geolocationCheck_def outOfRangeNotice_def Let_def)

lemma geolocationCheck_in_range:
  assumes "position env = Some pos" "d_location dept = Some loc"
    and "\<not> jsGreater (calculateDistance (arith env) (latitude pos) (longitude pos)
                        (latitude loc) (longitude loc)) LOCATION_THRESHOLD_METERS"
  shows "geolocationCheck env emp dept = (False, [])"
  using assms by (simp add: geolocationCheck_def Let_def)

lemma geolocationCheck_no_fix:
  assumes "position env = None \<or> d_location dept = None"
  shows "geolocationCheck env emp dept = (False, [])"
  using assms by (auto simp add: geolocationCheck_def split: option.splits)

text \<open>The two notices, field by field, when the computed distance is the number \<open>d\<close>.\<close>

lemma geolocationCheck_far:
  assumes "position env = Some pos" "d_location dept = Some loc"
    and "calculateDistance (arith env) (latitude pos) (longitude pos)
           (latitude loc) (longitude loc) = Num d"
    and "d > 200"
  shows "geolocationCheck env emp dept
           = (True,
              [\<lparr> n_id = ''notif-'' @ showInt (idClock env ''admin'') @ ''-admin'',
                  n_recipientId = ''admin'',
                  n_message = e_name emp @ '' scanned ''
                    @ showNumber (arith env) (Num (of_int (round d)))
                    @ ''m away from the '' @ d_name dept @ '' office.'',
                  n_read = False, n_createdAt = createdClock env ''admin'' \<rparr>,
               \<lparr> n_id = ''notif-'' @ showInt (idClock env ''it'') @ ''-it'',
                  n_recipientId = ''it'',
                  n_message = e_name emp @ '' scanned ''
                    @ showNumber (arith env) (Num (of_int (round d)))
                    @ ''m away from the '' @ d_name dept @ '' office.'',
                  n_read = False, n_createdAt = createdClock env ''it'' \<rparr>])"
  using assms
  by (simp add: geolocationCheck_def Let_def LOCATION_THRESHOLD_METERS_def Math_round_def)

text \<open>A fix for which the computed distance is NaN is not out of range.\<close>

lemma geolocationCheck_NaN:
  assumes "position env = Some pos" "d_location dept = Some loc"
    and "calculateDistance (arith env) (latitude pos) (longitude pos)
           (latitude loc) (longitude loc) = NaN"
  shows "geolocationCheck env emp dept = (False, [])"
  using assms by (simp add: geolocationCheck_def Let_def)

lemma farFromAdminOffice_distance:
  "calculateDistance exactArith (latitude farFromAdminOffice) (longitude farFromAdminOffice)
     8.5733 124.7811 = Num (6371000 * pi)"
  using spec_haversine_antipode [of "8.5733" "124.7811"]
  by (simp add: calculateDistance_exact farFromAdminOffice_def)

lemma earth_half_far: "6371000 * pi > (200 :: real)"
proof -
  have "(200::real) < 6371000 * 2" by simp
  also have "\<dots> \<le> 6371000 * pi" using pi_ge_two by simp
  finally show ?thesis .
qed

lemma farFromAdminOffice_check:
  "geolocationCheck (scanEnv t z (Some farFromAdminOffice)) emp adminOffice
     = (True,
        [\<lparr> n_id = ''notif-'' @ showInt t @ ''-admin'',
            n_recipientId = ''admin'',
            n_message = e_name emp @ '' scanned ''
              @ showNumber exactArith (Num (of_int (round (6371000 * pi))))
              @ ''m away from the Admin Office office.'',
            n_read = False, n_createdAt = t \<rparr>,
         \<lparr> n_id = ''notif-'' @ showInt t @ ''-it'',
            n_recipientId = ''it'',
            n_message = e_name emp @ '' scanned ''
              @ showNumber exactArith (Num (of_int (round (6371000 * pi))))
              @ ''m away from the Admin Office office.'',
            n_read = False, n_createdAt = t \<rparr>])"
proof -
  let ?env = "scanEnv t z (Some farFromAdminOffice)"
  have p: "position ?env = Some farFromAdminOffice" by (simp add: scanEnv_def)
  have l: "d_location adminOffice = Some \<lparr> latitude = 8.5733, longitude = 124.7811 \<rparr>"
    by (simp add: adminOffice_def)
  have d: "calculateDistance (arith ?env) (latitude farFromAdminOffice)
             (longitude farFromAdminOffice)
             (latitude \<lparr> latitude = 8.5733, longitude = 124.7811 \<rparr>)
             (longitude \<lparr> latitude = 8.5733, longitude = 124.7811 \<rparr>) = Num (6371000 * pi)"
    using farFromAdminOffice_distance by (simp add: scanEnv_def)
  show ?thesis
    unfolding geolocationCheck_far [OF p l d earth_half_far]
    by (simp add: scanEnv_def adminOffice_def)
qed

subsection \<open>What every call leaves alone\<close>

lemma onScanSuccess_notifications:
  assumes "passesChecks st decodedData user emp dept"
  shows "notifications (fst (onScanSuccess st env decodedData user))
           = notifications st @ snd (geolocationCheck env emp dept)"
proof (cases "employeeOnLeave (leaveRecords st) emp (toISODate (now env))")
  case None
  show ?thesis
    by (simp add: onScanSuccess_no_leave [OF assms None] split: sum.splits prod.splits)
next
  case (Some l)
  show ?thesis by (simp add: onScanSuccess_on_leave [OF assms Some])
qed

lemma onScanSuccess_failed_records:
  assumes "snd (onScanSuccess st env decodedData user) = Inl err"
  shows "dailyRecords (fst (onScanSuccess st env decodedData user)) = dailyRecords st"
  using assms
  by (auto simp: onScanSuccess_def Let_def
        split: option.splits payload.splits if_splits prod.splits sum.splits)

lemma onScanSuccess_frame:
  "employees (fst (onScanSuccess st env decodedData user)) = employees st
   \<and> departments (fst (onScanSuccess st env decodedData user)) = departments st
   \<and> leaveRecords (fst (onScanSuccess st env decodedData user)) = leaveRecords st"
  by (auto simp: onScanSuccess_def Let_def
        split: option.splits payload.splits if_splits prod.splits sum.splits)



subsection \<open>The outcome does not depend on the position\<close>





text \<open>A notice at a distance of 250.5: the number is rounded up and printed in digits.\<close>

lemma notice_text_example:
  "geolocationCheck
     ((scanEnv (utcInstant 2023 10 27 7 30) 0 (Some \<lparr> latitude = 8.5750, longitude = 124.7811 \<rparr>))
        \<lparr> arith := constArith 250.5 \<rparr>) alice adminOffice
   = (True,
      [\<lparr> n_id = ''notif-1698391800000-admin'', n_recipientId = ''admin'',
          n_message = ''Alice Johnson scanned 251m away from the Admin Office office.'',
          n_read = False, n_createdAt = 1698391800000 \<rparr>,
       \<lparr> n_id = ''notif-1698391800000-it'', n_recipientId = ''it'',
          n_message = ''Alice Johnson scanned 251m away from the Admin Office office.'',
          n_read = False, n_createdAt = 1698391800000 \<rparr>])"
proof -
  have t: "utcInstant 2023 10 27 7 30 = 1698391800000"
    by (simp add: utcInstant_def msPerDay_def)
  have c: "showInt 1698391800000 = ''1698391800000''" by (simp add: showInt_eval)
  have r: "round (250.5 :: real) = 251" by (simp add: round_def floor_eq_iff)
  have n: "showInt 251 = ''251''" by (simp add: showInt_eval)
  have m: "showNumber (constArith 250.5) (Math_round (Num 250.5)) = ''251''"
    using showNumber_rounded [of "250.5" "constArith 250.5"] r n by simp
  have d: "calculateDistance (constArith 250.5) la lo la' lo' = Num 250.5" for la lo la' lo'
    by (simp add: calculateDistance_def constArith_def)
  show ?thesis
    using d m t c
    by (simp add: geolocationCheck_def scanEnv_def adminOffice_def alice_def Let_def
          LOCATION_THRESHOLD_METERS_def)
qed



subsection \<open>Leave exclusion\<close>

lemma employeeOnLeave_iff:
  "(\<exists>l. employeeOnLeave leaveRecs emp d = Some l)
     \<longleftrightarrow> (\<exists>l \<in> set leaveRecs. l_employeeId l = e_id emp \<and> l_status l = Approved
                  \<and> l_startDate l \<le> d \<and> d \<le> l_endDate l)"
proof -
  have "(\<exists>l. employeeOnLeave leaveRecs emp d = Some l) \<longleftrightarrow> employeeOnLeave leaveRecs emp d \<noteq> None"
    by simp
  also have "\<dots> \<longleftrightarrow> (\<exists>l \<in> set leaveRecs. l_employeeId l = e_id emp \<and> l_status l = Approved
                  \<and> l_startDate l \<le> d \<and> d \<le> l_endDate l)"
    unfolding employeeOnLeave_def find_None_iff by auto
  finally show ?thesis .
qed

lemma employeeOnLeave_Some:
  assumes "employeeOnLeave leaveRecs emp d = Some l"
  shows "l \<in> set leaveRecs \<and> l_employeeId l = e_id emp \<and> l_status l = Approved
         \<and> l_startDate l \<le> d \<and> d \<le> l_endDate l"
  using assms unfolding employeeOnLeave_def find_Some_iff by (auto simp: in_set_conv_nth)

lemma bob_passes:
  "passesChecks initialState (Payload (Some ''Admin Office'')) (userOf ''bob'' ''1002'') bob adminOffice"
  by (simp add: passesChecks_def initialState_def initialEmployees_def initialDepartments_def
        userOf_def bob_def adminOffice_def)

lemma bob_on_leave:
  "employeeOnLeave (leaveRecords initialState) bob 19662 = Some (initialLeaveRecords ! 0)"
  by (simp add: employeeOnLeave_def initialState_def initialLeaveRecords_def bob_def)


lemma bob_scan:
  "onScanSuccess initialState (scanEnv (utcInstant 2023 11 1 7 30) 0 (Some farFromAdminOffice))
      (Payload (Some ''Admin Office'')) (userOf ''bob'' ''1002'')
    = (initialState\<lparr> notifications := initialNotifications
          @ snd (geolocationCheck (scanEnv (utcInstant 2023 11 1 7 30) 0 (Some farFromAdminOffice))
                   bob adminOffice) \<rparr>,
       Inl (OnApprovedLeave ''Bob Williams'' ''Vacation''))"
proof -
  let ?env = "scanEnv (utcInstant 2023 11 1 7 30) 0 (Some farFromAdminOffice)"
  have d: "toISODate (now ?env) = 19662"
    by (simp add: scanEnv_def utcInstant_def toISODate_def msPerDay_def)
  have l: "employeeOnLeave (leaveRecords initialState) bob (toISODate (now ?env))
             = Some (initialLeaveRecords ! 0)"
    unfolding d by (rule bob_on_leave)
  show ?thesis
    unfolding onScanSuccess_on_leave [OF bob_passes l]
    by (simp add: initialLeaveRecords_def bob_def initialState_def)
qed

lemma bob_scan_eight_hours_east:
  "snd (onScanSuccess initialState (scanEnv (utcInstant 2023 10 31 23 0) (8 * 3600000) None)
          (Payload (Some ''Admin Office'')) (userOf ''bob'' ''1002''))
     = Inl (OutsideAllowedWindow TimeIn)"
proof -
  let ?env = "scanEnv (utcInstant 2023 10 31 23 0) (8 * 3600000) None"
  have dd: "daysFromCivil 2023 10 31 = 19661" by (simp add: daysFromCivil_def)
  have d: "toISODate (now ?env) = 19661"
    by (simp add: scanEnv_def utcInstant_def toISODate_def msPerDay_def dd)
  have nl: "employeeOnLeave (leaveRecords initialState) bob (toISODate (now ?env)) = None"
    unfolding d by (simp add: employeeOnLeave_def initialState_def initialLeaveRecords_def bob_def)
  have c: "currentRecord initialState bob 19661 = newRecord bob 19661"
    by (simp add: currentRecord_def findRecord_def initialState_def initialDailyRecords_def bob_def)
  have std: "onDuty (newRecord bob 19661) \<noteq> Some True" by (simp add: newRecord_def)
  have nw: "\<not> inWindow ?env TimeIn"
    by (simp add: inWindow_def windowStart_def windowEnd_def scanEnv_def utcInstant_def
          toISODate_def newDate_def setHours_def msPerDay_def dd)
  from timeLogging_standard [OF std, of ?env bob "fst (geolocationCheck ?env bob adminOffice)"] nw
  have t: "timeLogging ?env bob (fst (geolocationCheck ?env bob adminOffice)) (newRecord bob 19661)
             = Inl (OutsideAllowedWindow TimeIn)"
    by (simp add: spec_nextPunch_def newRecord_def)
  show ?thesis
    unfolding onScanSuccess_no_leave [OF bob_passes nl] d c t by simp
qed

text \<open>
  Claim C3, as stated, fails. The scan of an employee on approved leave, taken far from
  the department, is rejected with OnApprovedLeave after the geolocation check has
  appended its two notifications. And the date the handler compares with the leave is
  the UTC date: eight hours east of UTC, a scan at 07:00 local time on the first day of
  the leave, 2023-11-01, is not rejected for the leave.
\<close>

theorem leave_exclusion_counterexample:
  "snd (onScanSuccess initialState (scanEnv (utcInstant 2023 11 1 7 30) 0 (Some farFromAdminOffice))
         (Payload (Some ''Admin Office'')) (userOf ''bob'' ''1002''))
     = Inl (OnApprovedLeave ''Bob Williams'' ''Vacation'')
   \<and> map n_recipientId (notifications (fst (onScanSuccess initialState
         (scanEnv (utcInstant 2023 11 1 7 30) 0 (Some farFromAdminOffice))
         (Payload (Some ''Admin Office'')) (userOf ''bob'' ''1002''))))
     = map n_recipientId (notifications initialState) @ [''admin'', ''it'']
   \<and> localDay (8 * 3600000) (utcInstant 2023 10 31 23 0) = daysFromCivil 2023 11 1
   \<and> l_startDate (initialLeaveRecords ! 0) = daysFromCivil 2023 11 1
   \<and> snd (onScanSuccess initialState (scanEnv (utcInstant 2023 10 31 23 0) (8 * 3600000) None)
          (Payload (Some ''Admin Office'')) (userOf ''bob'' ''1002''))
     = Inl (OutsideAllowedWindow TimeIn)"
proof -
  have a: "snd (onScanSuccess initialState (scanEnv (utcInstant 2023 11 1 7 30) 0 (Some farFromAdminOffice))
         (Payload (Some ''Admin Office'')) (userOf ''bob'' ''1002''))
     = Inl (OnApprovedLeave ''Bob Williams'' ''Vacation'')"
    unfolding bob_scan by simp
  have b: "map n_recipientId (notifications (fst (onScanSuccess initialState
         (scanEnv (utcInstant 2023 11 1 7 30) 0 (Some farFromAdminOffice))
         (Payload (Some ''Admin Office'')) (userOf ''bob'' ''1002''))))
     = map n_recipientId (notifications initialState) @ [''admin'', ''it'']"
    unfolding bob_scan farFromAdminOffice_check by (simp add: initialState_def)
  have c: "localDay (8 * 3600000) (utcInstant 2023 10 31 23 0) = daysFromCivil 2023 11 1"
    by (simp add: localDay_def utcInstant_def msPerDay_def daysFromCivil_def)
  have d: "l_startDate (initialLeaveRecords ! 0) = daysFromCivil 2023 11 1"
    by (simp add: initialLeaveRecords_def)
  from a b c d bob_scan_eight_hours_east show ?thesis by (intro conjI)
qed

text \<open>
  Claim C3, amended. Take a scan that passes the identity, payload and department
  checks, at an instant whose UTC date is today's local date, by an employee with an
  Approved leave record whose interval contains today. It fails with OnApprovedLeave,
  carrying the type of such a leave, and no daily record is created or changed. The
  geolocation check has run before: the notifications it produces are appended all the
  same, one for admin and one for it when the distance computed for the fix is a number
  above 200.
\<close>

theorem leave_exclusion_after_geofence:
  assumes "passesChecks st decodedData user emp dept"
    and "today = localDay (tz env) (now env)" and "toISODate (now env) = today"
    and "l \<in> set (leaveRecords st)" and "l_employeeId l = e_id emp"
    and "l_status l = Approved"
    and "l_startDate l \<le> today" and "today \<le> l_endDate l"
  shows "(\<exists>l'. l' \<in> set (leaveRecords st) \<and> l_employeeId l' = e_id emp
              \<and> l_status l' = Approved
              \<and> l_startDate l' \<le> today \<and> today \<le> l_endDate l'
              \<and> snd (onScanSuccess st env decodedData user)
                  = Inl (OnApprovedLeave (e_name emp) (l_primaryLeaveType l')))
         \<and> dailyRecords (fst (onScanSuccess st env decodedData user)) = dailyRecords st
         \<and> notifications (fst (onScanSuccess st env decodedData user))
             = notifications st @ snd (geolocationCheck env emp dept)
         \<and> (position env = Some pos \<and> d_location dept = Some loc
              \<and> calculateDistance (arith env) (latitude pos) (longitude pos)
                    (latitude loc) (longitude loc) = Num d
              \<and> d > 200 \<longrightarrow>
              snd (geolocationCheck env emp dept)
                = [\<lparr> n_id = ''notif-'' @ showInt (idClock env ''admin'') @ ''-admin'',
                     n_recipientId = ''admin'',
                     n_message = e_name emp @ '' scanned ''
                       @ showNumber (arith env) (Num (of_int (round d)))
                       @ ''m away from the '' @ d_name dept @ '' office.'',
                     n_read = False, n_createdAt = createdClock env ''admin'' \<rparr>,
                   \<lparr> n_id = ''notif-'' @ showInt (idClock env ''it'') @ ''-it'',
                     n_recipientId = ''it'',
                     n_message = e_name emp @ '' scanned ''
                       @ showNumber (arith env) (Num (of_int (round d)))
                       @ ''m away from the '' @ d_name dept @ '' office.'',
                     n_read = False, n_createdAt = createdClock env ''it'' \<rparr>])"
proof -
  from assms(3-8) obtain l' where
    l': "employeeOnLeave (leaveRecords st) emp (toISODate (now env)) = Some l'"
    using employeeOnLeave_iff [of "leaveRecords st" emp "toISODate (now env)"] by blast
  note run = onScanSuccess_on_leave [OF assms(1) l']
  have a: "\<exists>l'. l' \<in> set (leaveRecords st) \<and> l_employeeId l' = e_id emp
              \<and> l_status l' = Approved
              \<and> l_startDate l' \<le> today \<and> today \<le> l_endDate l'
              \<and> snd (onScanSuccess st env decodedData user)
                  = Inl (OnApprovedLeave (e_name emp) (l_primaryLeaveType l'))"
    using employeeOnLeave_Some [OF l'] assms(3) by (intro exI [of _ l']) (simp add: run)
  have b: "dailyRecords (fst (onScanSuccess st env decodedData user)) = dailyRecords st"
    by (simp add: run)
  have c: "notifications (fst (onScanSuccess st env decodedData user))
             = notifications st @ snd (geolocationCheck env emp dept)"
    by (simp add: run)
  have d: "position env = Some pos \<and> d_location dept = Some loc
              \<and> calculateDistance (arith env) (latitude pos) (longitude pos)
                    (latitude loc) (longitude loc) = Num d
              \<and> d > 200 \<longrightarrow>
              snd (geolocationCheck env emp dept)
                = [\<lparr> n_id = ''notif-'' @ showInt (idClock env ''admin'') @ ''-admin'',
                     n_recipientId = ''admin'',
                     n_message = e_name emp @ '' scanned ''
                       @ showNumber (arith env) (Num (of_int (round d)))
                       @ ''m away from the '' @ d_name dept @ '' office.'',
                     n_read = False, n_createdAt = createdClock env ''admin'' \<rparr>,
                   \<lparr> n_id = ''notif-'' @ showInt (idClock env ''it'') @ ''-it'',
                     n_recipientId = ''it'',
                     n_message = e_name emp @ '' scanned ''
                       @ showNumber (arith env) (Num (of_int (round d)))
                       @ ''m away from the '' @ d_name dept @ '' office.'',
                     n_read = False, n_createdAt = createdClock env ''it'' \<rparr>]"
    using geolocationCheck_far [of env pos dept loc d emp] by simp
  from a b c d show ?thesis by blast
qed

theorem leave_exclusion_after_geofence_witness:
  "passesChecks initialState (Payload (Some ''Admin Office'')) (userOf ''bob'' ''1002'') bob adminOffice
   \<and> daysFromCivil 2023 11 1
       = localDay (tz (scanEnv (utcInstant 2023 11 1 7 30) 0 (Some farFromAdminOffice)))
           (now (scanEnv (utcInstant 2023 11 1 7 30) 0 (Some farFromAdminOffice)))
   \<and> toISODate (now (scanEnv (utcInstant 2023 11 1 7 30) 0 (Some farFromAdminOffice)))
       = daysFromCivil 2023 11 1
   \<and> initialLeaveRecords ! 0 \<in> set (leaveRecords initialState)
   \<and> l_employeeId (initialLeaveRecords ! 0) = e_id bob
   \<and> l_status (initialLeaveRecords ! 0) = Approved
   \<and> l_startDate (initialLeaveRecords ! 0) \<le> daysFromCivil 2023 11 1
   \<and> daysFromCivil 2023 11 1 \<le> l_endDate (initialLeaveRecords ! 0)
   \<and> snd (onScanSuccess initialState (scanEnv (utcInstant 2023 11 1 7 30) 0 (Some farFromAdminOffice))
           (Payload (Some ''Admin Office'')) (userOf ''bob'' ''1002''))
       = Inl (OnApprovedLeave ''Bob Williams'' ''Vacation'')
   \<and> dailyRecords (fst (onScanSuccess initialState
           (scanEnv (utcInstant 2023 11 1 7 30) 0 (Some farFromAdminOffice))
           (Payload (Some ''Admin Office'')) (userOf ''bob'' ''1002''))) = initialDailyRecords
   \<and> map n_recipientId (notifications (fst (onScanSuccess initialState
           (scanEnv (utcInstant 2023 11 1 7 30) 0 (Some farFromAdminOffice))
           (Payload (Some ''Admin Office'')) (userOf ''bob'' ''1002''))))
       = [''admin'', ''2001'', ''admin'', ''it'']"
proof -
  let ?env = "scanEnv (utcInstant 2023 11 1 7 30) 0 (Some farFromAdminOffice)"
  let ?run = "onScanSuccess initialState ?env (Payload (Some ''Admin Office'')) (userOf ''bob'' ''1002'')"
  have h1: "daysFromCivil 2023 11 1 = localDay (tz ?env) (now ?env)"
    by (simp add: localDay_def scanEnv_def utcInstant_def msPerDay_def)
  have h2: "toISODate (now ?env) = daysFromCivil 2023 11 1"
    by (simp add: scanEnv_def utcInstant_def toISODate_def msPerDay_def)
  have h3: "initialLeaveRecords ! 0 \<in> set (leaveRecords initialState)"
    by (simp add: initialState_def initialLeaveRecords_def)
  have h4: "l_employeeId (initialLeaveRecords ! 0) = e_id bob"
    by (simp add: initialLeaveRecords_def bob_def)
  have h5: "l_status (initialLeaveRecords ! 0) = Approved"
    by (simp add: initialLeaveRecords_def)
  have h6: "l_startDate (initialLeaveRecords ! 0) \<le> daysFromCivil 2023 11 1"
    by (simp add: initialLeaveRecords_def)
  have h7: "daysFromCivil 2023 11 1 \<le> l_endDate (initialLeaveRecords ! 0)"
    by (simp add: initialLeaveRecords_def)
  note inst = leave_exclusion_after_geofence [OF bob_passes h1 h2 h3 h4 h5 h6 h7]
  from inst have recs: "dailyRecords (fst ?run) = initialDailyRecords"
    by (simp add: initialState_def)
  from inst have ntf: "map n_recipientId (notifications (fst ?run)) = [''admin'', ''2001'', ''admin'', ''it'']"
    by (simp add: farFromAdminOffice_check initialState_def initialNotifications_def)
  have res: "snd ?run = Inl (OnApprovedLeave ''Bob Williams'' ''Vacation'')"
    unfolding bob_scan by simp
  from bob_passes h1 h2 h3 h4 h5 h6 h7 res recs ntf show ?thesis by (intro conjI)
qed


subsection \<open>One record per call\<close>

lemma onScanSuccess_success_passes:
  assumes "snd (onScanSuccess st env decodedData user) = Inr ok"
  shows "\<exists>emp dept. passesChecks st decodedData user emp dept
           \<and> employeeOnLeave (leaveRecords st) emp (toISODate (now env)) = None"
proof -
  obtain emp where e: "find (\<lambda>e. Some (e_id e) = u_employeeId user) (employees st) = Some emp"
    using assms by (cases "find (\<lambda>e. Some (e_id e) = u_employeeId user) (employees st)")
      (simp_all add: onScanSuccess_def)
  obtain q where q: "decodedData = Payload (Some q)"
    using assms e by (cases decodedData; cases "case decodedData of Payload x \<Rightarrow> x | _ \<Rightarrow> None")
      (simp_all add: onScanSuccess_def)
  obtain dept where d: "find (\<lambda>d. d_name d = q) (departments st) = Some dept"
    using assms e q by (cases "find (\<lambda>d. d_name d = q) (departments st)")
      (simp_all add: onScanSuccess_def)
  have m: "e_department emp = q"
    using assms e q d by (cases "e_department emp = q") (simp_all add: onScanSuccess_def)
  have p: "passesChecks st decodedData user emp dept"
    using e q d m by (simp add: passesChecks_def)
  have "employeeOnLeave (leaveRecords st) emp (toISODate (now env)) = None"
  proof (cases "employeeOnLeave (leaveRecords st) emp (toISODate (now env))")
    case None then show ?thesis .
  next
    case (Some l)
    from onScanSuccess_on_leave [OF p Some] assms show ?thesis by simp
  qed
  with p show ?thesis by blast
qed

lemma onScanSuccess_rejected:
  assumes "\<not> (\<exists>emp dept. passesChecks st decodedData user emp dept)"
  shows "fst (onScanSuccess st env decodedData user) = st"
proof (cases "find (\<lambda>e. Some (e_id e) = u_employeeId user) (employees st)")
  case None
  then show ?thesis by (simp add: onScanSuccess_def)
next
  case (Some emp)
  note e = this
  show ?thesis
  proof (cases decodedData)
    case Falsy
    with e show ?thesis by (simp add: onScanSuccess_def)
  next
    case (Payload x)
    show ?thesis
    proof (cases x)
      case None
      with e Payload show ?thesis by (simp add: onScanSuccess_def)
    next
      case (Some q)
      note q = this
      show ?thesis
      proof (cases "find (\<lambda>d. d_name d = q) (departments st)")
        case None
        with e Payload q show ?thesis by (simp add: onScanSuccess_def)
      next
        case (Some dept)
        have "e_department emp \<noteq> q"
          using assms e Payload q Some by (auto simp: passesChecks_def)
        with e Payload q Some show ?thesis by (simp add: onScanSuccess_def)
      qed
    qed
  qed
qed

lemma map_replace_distinct:
  assumes "distinct (map f xs)" "i < length xs"
  shows "map (\<lambda>r. if f r = f (xs ! i) then u else r) xs = xs[i := u]"
proof (rule nth_equalityI)
  show "length (map (\<lambda>r. if f r = f (xs ! i) then u else r) xs) = length (xs[i := u])"
    by simp
next
  fix j assume "j < length (map (\<lambda>r. if f r = f (xs ! i) then u else r) xs)"
  then have j: "j < length xs" by simp
  have "f (xs ! j) = f (xs ! i) \<longleftrightarrow> j = i"
    using assms j nth_eq_iff_index_eq [of "map f xs" j i] by simp
  with j assms(2) show "map (\<lambda>r. if f r = f (xs ! i) then u else r) xs ! j = xs[i := u] ! j"
    by (simp add: nth_list_update)
qed

lemma find_holds: "find P xs = Some x \<Longrightarrow> P x \<and> x \<in> set xs"
  by (induction xs) (auto split: if_splits)

lemma find_Some_index:
  assumes "find P xs = Some x"
  shows "\<exists>i < length xs. xs ! i = x"
  using assms unfolding find_Some_iff by blast

lemma onScanSuccess_success_shape:
  assumes "distinct (map r_id (dailyRecords st))"
    and "snd (onScanSuccess st env decodedData user) = Inr ok"
  shows "\<exists>emp u. Some (e_id emp) = u_employeeId user
           \<and> r_employeeId u = e_id emp \<and> r_date u = toISODate (now env)
           \<and> r_id u = recordId ok
           \<and> ((findRecord (dailyRecords st) emp (toISODate (now env)) = None
                \<and> dailyRecords (fst (onScanSuccess st env decodedData user))
                    = dailyRecords st @ [u])
              \<or> (\<exists>i < length (dailyRecords st).
                    findRecord (dailyRecords st) emp (toISODate (now env))
                      = Some (dailyRecords st ! i)
                    \<and> dailyRecords (fst (onScanSuccess st env decodedData user))
                        = (dailyRecords st)[i := u]))"
proof -
  let ?d = "toISODate (now env)"
  from onScanSuccess_success_passes [OF assms(2)] obtain emp dept where
    p: "passesChecks st decodedData user emp dept"
    and nl: "employeeOnLeave (leaveRecords st) emp ?d = None" by blast
  let ?oor = "fst (geolocationCheck env emp dept)"
  note run = onScanSuccess_no_leave [OF p nl]
  from assms(2) obtain u msg where
    t: "timeLogging env emp ?oor (currentRecord st emp ?d) = Inr (u, msg)"
    by (auto simp: run split: sum.splits)
  from timeLogging_key [OF t] currentRecord_key [of st emp ?d]
  have k: "r_employeeId u = e_id emp" "r_date u = ?d" "r_id u = r_id (currentRecord st emp ?d)"
    by simp_all
  have rid: "recordId ok = r_id (currentRecord st emp ?d)"
    using assms(2) by (auto simp: run t)
  have e: "Some (e_id emp) = u_employeeId user"
    using p find_holds [of "\<lambda>e. Some (e_id e) = u_employeeId user" "employees st" emp]
    by (simp add: passesChecks_def)
  have recs: "dailyRecords (fst (onScanSuccess st env decodedData user))
          = upsert (dailyRecords st) (findRecord (dailyRecords st) emp ?d = None)
              (currentRecord st emp ?d) u"
    by (simp add: run t)
  show ?thesis
  proof (cases "findRecord (dailyRecords st) emp ?d")
    case None
    with recs have "dailyRecords (fst (onScanSuccess st env decodedData user)) = dailyRecords st @ [u]"
      by (simp add: upsert_def)
    with None e k rid show ?thesis
      by (intro exI [of _ emp] exI [of _ u]) simp
  next
    case (Some x)
    from find_Some_index [OF Some [unfolded findRecord_def]]
    obtain i where i: "i < length (dailyRecords st)" "dailyRecords st ! i = x" by blast
    have "currentRecord st emp ?d = dailyRecords st ! i"
      using Some i by (simp add: currentRecord_def)
    with recs Some have "dailyRecords (fst (onScanSuccess st env decodedData user))
        = (dailyRecords st)[i := u]"
      using map_replace_distinct [OF assms(1) i(1), of u] by (simp add: upsert_def)
    with Some i have "\<exists>i < length (dailyRecords st).
                    findRecord (dailyRecords st) emp ?d = Some (dailyRecords st ! i)
                    \<and> dailyRecords (fst (onScanSuccess st env decodedData user))
                        = (dailyRecords st)[i := u]"
      by (intro exI [of _ i]) simp
    with e k rid show ?thesis
      by (intro exI [of _ emp] exI [of _ u]) simp
  qed
qed

lemma onScanSuccess_notifications_grow:
  "\<exists>ns. notifications (fst (onScanSuccess st env decodedData user)) = notifications st @ ns"
proof (cases "\<exists>emp dept. passesChecks st decodedData user emp dept")
  case True
  then obtain emp dept where "passesChecks st decodedData user emp dept" by blast
  from onScanSuccess_notifications [OF this] show ?thesis by blast
next
  case False
  from onScanSuccess_rejected [OF this] show ?thesis by simp
qed


lemma ev_days_more [simp]: "daysFromCivil 2023 10 28 = 19658"
  by (simp add: daysFromCivil_def)

lemma onScanSuccess_keeps_oneRecordPerDay:
  assumes "distinct (map r_id (dailyRecords st))" and "oneRecordPerDay (dailyRecords st)"
  shows "oneRecordPerDay (dailyRecords (fst (onScanSuccess st env decodedData user)))"
proof (cases "snd (onScanSuccess st env decodedData user)")
  case (Inl err)
  from onScanSuccess_failed_records [OF this] assms(2) show ?thesis by simp
next
  case (Inr ok)
  let ?d = "toISODate (now env)"
  let ?key = "\<lambda>r. (r_employeeId r, r_date r)"
  from onScanSuccess_success_shape [OF assms(1) Inr] obtain emp u where
    k: "r_employeeId u = e_id emp" "r_date u = ?d"
    and c: "(findRecord (dailyRecords st) emp ?d = None
              \<and> dailyRecords (fst (onScanSuccess st env decodedData user)) = dailyRecords st @ [u])
            \<or> (\<exists>i < length (dailyRecords st).
                  findRecord (dailyRecords st) emp ?d = Some (dailyRecords st ! i)
                  \<and> dailyRecords (fst (onScanSuccess st env decodedData user))
                      = (dailyRecords st)[i := u])"
    by blast
  from c show ?thesis
  proof
    assume a: "findRecord (dailyRecords st) emp ?d = None
              \<and> dailyRecords (fst (onScanSuccess st env decodedData user)) = dailyRecords st @ [u]"
    then have "\<forall>r \<in> set (dailyRecords st). \<not> (r_employeeId r = e_id emp \<and> r_date r = ?d)"
      by (simp add: findRecord_def find_None_iff)
    then have "?key u \<notin> set (map ?key (dailyRecords st))" using k by auto
    with a assms(2) show ?thesis by (simp add: oneRecordPerDay_def)
  next
    assume "\<exists>i < length (dailyRecords st).
                  findRecord (dailyRecords st) emp ?d = Some (dailyRecords st ! i)
                  \<and> dailyRecords (fst (onScanSuccess st env decodedData user))
                      = (dailyRecords st)[i := u]"
    then obtain i where i: "i < length (dailyRecords st)"
      and f: "findRecord (dailyRecords st) emp ?d = Some (dailyRecords st ! i)"
      and r: "dailyRecords (fst (onScanSuccess st env decodedData user)) = (dailyRecords st)[i := u]"
      by blast
    from find_holds [OF f [unfolded findRecord_def]] k
    have "?key (dailyRecords st ! i) = ?key u" by simp
    then have "map ?key ((dailyRecords st)[i := u]) = map ?key (dailyRecords st)"
      using i by (simp add: map_update list_update_same_conv)
    with r assms(2) show ?thesis by (simp add: oneRecordPerDay_def)
  qed
qed

lemma scheduledTwice_reached:
  "Option.bind (onScheduleOnDuty initialState ''1001'' (daysFromCivil 2023 10 28))
     (\<lambda>s. onScheduleOnDuty s ''1001'' (daysFromCivil 2023 10 28)) = Some scheduledTwice"
proof -
  have ds: "dateString 19658 = ''2023-10-28''" by code_simp
  have f: "find (\<lambda>e. e_id e = ''1001'') initialEmployees = Some alice"
    by (simp add: initialEmployees_def alice_def)
  have 1: "onScheduleOnDuty initialState ''1001'' (daysFromCivil 2023 10 28)
         = Some (initialState\<lparr> dailyRecords := initialDailyRecords @ [onDutyRecord] \<rparr>)"
    by (simp add: onScheduleOnDuty_def initialState_def f ds onDutyRecord_def alice_def)
  have 2: "onScheduleOnDuty (initialState\<lparr> dailyRecords := initialDailyRecords @ [onDutyRecord] \<rparr>)
            ''1001'' (daysFromCivil 2023 10 28) = Some scheduledTwice"
    by (simp add: onScheduleOnDuty_def initialState_def f ds onDutyRecord_def alice_def
          scheduledTwice_def)
  show ?thesis unfolding 1 using 2 by simp
qed

text \<open>
  Claim C1. The daily records of the initial state hold one record per employee and
  date. Scheduling special duty appends its record without looking for an existing one:
  scheduling Alice Johnson twice for 2023-10-28, or once for 2023-10-26 where she has a
  record, leaves two records with the same employee and date.
\<close>

theorem onScheduleOnDuty_duplicates_record:
  "oneRecordPerDay (dailyRecords initialState)
   \<and> Option.bind (onScheduleOnDuty initialState ''1001'' (daysFromCivil 2023 10 28))
        (\<lambda>s. onScheduleOnDuty s ''1001'' (daysFromCivil 2023 10 28)) = Some scheduledTwice
   \<and> \<not> oneRecordPerDay (dailyRecords scheduledTwice)
   \<and> map_option (\<lambda>s. oneRecordPerDay (dailyRecords s))
        (onScheduleOnDuty initialState ''1001'' (daysFromCivil 2023 10 26)) = Some False"
proof -
  have a: "oneRecordPerDay (dailyRecords initialState)"
    by (simp add: oneRecordPerDay_def initialState_def initialDailyRecords_def)
  have b: "\<not> oneRecordPerDay (dailyRecords scheduledTwice)"
    by (simp add: oneRecordPerDay_def scheduledTwice_def)
  have f: "find (\<lambda>e. e_id e = ''1001'') initialEmployees = Some alice"
    by (simp add: initialEmployees_def alice_def)
  have c: "map_option (\<lambda>s. oneRecordPerDay (dailyRecords s))
        (onScheduleOnDuty initialState ''1001'' (daysFromCivil 2023 10 26)) = Some False"
    by (simp add: onScheduleOnDuty_def initialState_def f oneRecordPerDay_def
          initialDailyRecords_def)
  from a scheduledTwice_reached b c show ?thesis by blast
qed


lemma scheduledTwice_scan:
  "onScanSuccess scheduledTwice (scanEnv (utcInstant 2023 10 28 9 0) 0 None)
      (Payload (Some ''Admin Office'')) (userOf ''alice'' ''1001'')
    = (scheduledTwice\<lparr> dailyRecords := initialDailyRecords
          @ [onDutyRecord\<lparr> timeIn := Some (utcInstant 2023 10 28 9 0), isOutOfRange := Some False \<rparr>,
             onDutyRecord\<lparr> timeIn := Some (utcInstant 2023 10 28 9 0), isOutOfRange := Some False \<rparr>] \<rparr>,
       Inr \<lparr> message = ''On-duty Time In for Alice Johnson successful. (Could not get location. Scan will proceed without verification.)'',
             recordId = ''1001-2023-10-28'' \<rparr>)"
proof -
  let ?env = "scanEnv (utcInstant 2023 10 28 9 0) 0 None"
  have d: "toISODate (now ?env) = 19658"
    by (simp add: scanEnv_def utcInstant_def toISODate_def msPerDay_def)
  have p: "passesChecks scheduledTwice (Payload (Some ''Admin Office'')) (userOf ''alice'' ''1001'')
             alice adminOffice"
    using alice_passes by (simp add: passesChecks_def scheduledTwice_def initialState_def)
  have nl: "employeeOnLeave (leaveRecords scheduledTwice) alice (toISODate (now ?env)) = None"
    unfolding d
    by (simp add: employeeOnLeave_def scheduledTwice_def initialState_def
          initialLeaveRecords_def alice_def)
  have f: "findRecord (dailyRecords scheduledTwice) alice 19658 = Some onDutyRecord"
    by (simp add: findRecord_def scheduledTwice_def initialState_def initialDailyRecords_def
          onDutyRecord_def alice_def)
  have c: "currentRecord scheduledTwice alice 19658 = onDutyRecord"
    by (simp add: currentRecord_def f)
  have g: "geolocationCheck ?env alice adminOffice = (False, [])"
    by (simp add: geolocationCheck_def scanEnv_def)
  have t: "timeLogging ?env alice False onDutyRecord
             = Inr (setScanDetails ?env False (onDutyRecord\<lparr> timeIn := Some (now ?env) \<rparr>),
                    ''On-duty Time In for Alice Johnson successful.'')"
    by (simp add: timeLogging_def Let_def onDutyRecord_def alice_def)
  show ?thesis
    unfolding onScanSuccess_no_leave [OF p nl] d c g fst_conv snd_conv t f
    by (simp add: upsert_def scheduledTwice_def initialState_def initialDailyRecords_def
          onDutyRecord_def setScanDetails_def scanEnv_def suffixes_def locationErrorText_def)
qed

text \<open>
  On a state whose daily records have pairwise different ids, a call changes at most one
  daily record: none when it fails; when it succeeds, the record of the scanning
  employee for \<open>todayStr\<close>, which is appended if the employee had none and replaced at
  its position otherwise. Every call leaves employees, departments and leave records as
  they were, and can only append to the notifications.
\<close>

lemma onScanSuccess_one_record:
  assumes "distinct (map r_id (dailyRecords st))"
  shows "employees (fst (onScanSuccess st env decodedData user)) = employees st
         \<and> departments (fst (onScanSuccess st env decodedData user)) = departments st
         \<and> leaveRecords (fst (onScanSuccess st env decodedData user)) = leaveRecords st
         \<and> (\<exists>ns. notifications (fst (onScanSuccess st env decodedData user))
                    = notifications st @ ns)
         \<and> (case snd (onScanSuccess st env decodedData user) of
               Inl err \<Rightarrow>
                 dailyRecords (fst (onScanSuccess st env decodedData user)) = dailyRecords st
             | Inr ok \<Rightarrow>
                 \<exists>emp u. Some (e_id emp) = u_employeeId user
                   \<and> r_employeeId u = e_id emp \<and> r_date u = toISODate (now env)
                   \<and> r_id u = recordId ok
                   \<and> ((findRecord (dailyRecords st) emp (toISODate (now env)) = None
                        \<and> dailyRecords (fst (onScanSuccess st env decodedData user))
                            = dailyRecords st @ [u])
                      \<or> (\<exists>i < length (dailyRecords st).
                            findRecord (dailyRecords st) emp (toISODate (now env))
                              = Some (dailyRecords st ! i)
                            \<and> dailyRecords (fst (onScanSuccess st env decodedData user))
                                = (dailyRecords st)[i := u])))"
proof -
  have recs: "case snd (onScanSuccess st env decodedData user) of
               Inl err \<Rightarrow>
                 dailyRecords (fst (onScanSuccess st env decodedData user)) = dailyRecords st
             | Inr ok \<Rightarrow>
                 \<exists>emp u. Some (e_id emp) = u_employeeId user
                   \<and> r_employeeId u = e_id emp \<and> r_date u = toISODate (now env)
                   \<and> r_id u = recordId ok
                   \<and> ((findRecord (dailyRecords st) emp (toISODate (now env)) = None
                        \<and> dailyRecords (fst (onScanSuccess st env decodedData user))
                            = dailyRecords st @ [u])
                      \<or> (\<exists>i < length (dailyRecords st).
                            findRecord (dailyRecords st) emp (toISODate (now env))
                              = Some (dailyRecords st ! i)
                            \<and> dailyRecords (fst (onScanSuccess st env decodedData user))
                                = (dailyRecords st)[i := u]))"
  proof (cases "snd (onScanSuccess st env decodedData user)")
    case (Inl err)
    from onScanSuccess_failed_records [OF this] Inl show ?thesis by simp
  next
    case (Inr ok)
    from onScanSuccess_success_shape [OF assms Inr] Inr show ?thesis by simp
  qed
  from onScanSuccess_frame [of st env decodedData user]
    onScanSuccess_notifications_grow [of st env decodedData user] recs
  show ?thesis by blast
qed

text \<open>
  Claim C7. A call is to change at most one daily record. The handler replaces its
  record by id, in every record of the list that carries the id. After special duty was
  scheduled twice for Alice Johnson on 2023-10-28, which leaves two records with one id,
  a single scan of hers on that day succeeds and changes both of them.
\<close>

theorem scan_mutates_two_records:
  "Option.bind (onScheduleOnDuty initialState ''1001'' (daysFromCivil 2023 10 28))
        (\<lambda>s. onScheduleOnDuty s ''1001'' (daysFromCivil 2023 10 28)) = Some scheduledTwice
   \<and> dailyRecords scheduledTwice = initialDailyRecords @ [onDutyRecord, onDutyRecord]
   \<and> snd (onScanSuccess scheduledTwice (scanEnv (utcInstant 2023 10 28 9 0) 0 None)
         (Payload (Some ''Admin Office'')) (userOf ''alice'' ''1001''))
       = Inr \<lparr> message = ''On-duty Time In for Alice Johnson successful. (Could not get location. Scan will proceed without verification.)'',
               recordId = ''1001-2023-10-28'' \<rparr>
   \<and> dailyRecords (fst (onScanSuccess scheduledTwice
         (scanEnv (utcInstant 2023 10 28 9 0) 0 None)
         (Payload (Some ''Admin Office'')) (userOf ''alice'' ''1001'')))
       = initialDailyRecords
           @ [onDutyRecord\<lparr> timeIn := Some (utcInstant 2023 10 28 9 0), isOutOfRange := Some False \<rparr>,
              onDutyRecord\<lparr> timeIn := Some (utcInstant 2023 10 28 9 0), isOutOfRange := Some False \<rparr>]
   \<and> onDutyRecord\<lparr> timeIn := Some (utcInstant 2023 10 28 9 0), isOutOfRange := Some False \<rparr>
       \<noteq> onDutyRecord"
proof -
  have a: "dailyRecords scheduledTwice = initialDailyRecords @ [onDutyRecord, onDutyRecord]"
    by (simp add: scheduledTwice_def)
  have b: "onDutyRecord\<lparr> timeIn := Some (utcInstant 2023 10 28 9 0), isOutOfRange := Some False \<rparr>
       \<noteq> onDutyRecord"
    by (simp add: onDutyRecord_def)
  from scheduledTwice_reached a b show ?thesis
    unfolding scheduledTwice_scan by simp
qed

subsection \<open>Leave conflict check\<close>

lemma newDate_le [simp]: "newDate a \<le> newDate b \<longleftrightarrow> a \<le> b"
  by (simp add: newDate_def msPerDay_def)

lemma isOverlapping_spec:
  "isOverlapping leaveRecs employee reviewRecord startDate endDate
     = spec_hasOverlap leaveRecs (e_id employee) startDate endDate (map_option l_id reviewRecord)"
  unfolding isOverlapping_def spec_hasOverlap_def Let_def list_ex_iff
  by (cases reviewRecord) auto

lemma isOverlapping_ignores_rejected:
  "isOverlapping leaveRecs employee reviewRecord startDate endDate
     = isOverlapping (filter (\<lambda>r. l_status r \<noteq> Rejected) leaveRecs) employee reviewRecord
         startDate endDate"
  unfolding isOverlapping_spec spec_hasOverlap_def by auto

text \<open>
  Claim C5. The overlap check is true exactly when some leave record of the employee,
  not Rejected and not the record under review, has an interval that meets the new one:
  startDate <= otherEnd and endDate >= otherStart. It is true for 2023-11-01..05 against
  2023-11-03..10, false for 2023-11-01..02 against 2023-11-03..04; Rejected records never
  count. The check is a function of the leave records and returns only a truth value.
\<close>

theorem isOverlapping_inclusive_intersection:
  "isOverlapping leaveRecs employee reviewRecord startDate endDate
     = spec_hasOverlap leaveRecs (e_id employee) startDate endDate (map_option l_id reviewRecord)
   \<and> isOverlapping leaveRecs employee reviewRecord startDate endDate
     = isOverlapping (filter (\<lambda>r. l_status r \<noteq> Rejected) leaveRecs) employee reviewRecord
         startDate endDate
   \<and> isOverlapping
        [leaveOf ''leave-a'' diana (daysFromCivil 2023 11 3) (daysFromCivil 2023 11 10) Pending]
        diana None (daysFromCivil 2023 11 1) (daysFromCivil 2023 11 5)
   \<and> \<not> isOverlapping
        [leaveOf ''leave-b'' diana (daysFromCivil 2023 11 3) (daysFromCivil 2023 11 4) Approved]
        diana None (daysFromCivil 2023 11 1) (daysFromCivil 2023 11 2)
   \<and> \<not> isOverlapping
        [leaveOf ''leave-c'' diana (daysFromCivil 2023 11 3) (daysFromCivil 2023 11 10) Rejected]
        diana None (daysFromCivil 2023 11 1) (daysFromCivil 2023 11 5)
   \<and> \<not> isOverlapping initialLeaveRecords hannah None
        (daysFromCivil 2023 10 30) (daysFromCivil 2023 10 30)"
proof -
  have a: "isOverlapping
        [leaveOf ''leave-a'' diana (daysFromCivil 2023 11 3) (daysFromCivil 2023 11 10) Pending]
        diana None (daysFromCivil 2023 11 1) (daysFromCivil 2023 11 5)"
    by (simp add: isOverlapping_def leaveOf_def)
  have b: "\<not> isOverlapping
        [leaveOf ''leave-b'' diana (daysFromCivil 2023 11 3) (daysFromCivil 2023 11 4) Approved]
        diana None (daysFromCivil 2023 11 1) (daysFromCivil 2023 11 2)"
    by (simp add: isOverlapping_def leaveOf_def)
  have c: "\<not> isOverlapping
        [leaveOf ''leave-c'' diana (daysFromCivil 2023 11 3) (daysFromCivil 2023 11 10) Rejected]
        diana None (daysFromCivil 2023 11 1) (daysFromCivil 2023 11 5)"
    by (simp add: isOverlapping_def leaveOf_def)
  have d: "\<not> isOverlapping initialLeaveRecords hannah None
        (daysFromCivil 2023 10 30) (daysFromCivil 2023 10 30)"
    by (simp add: isOverlapping_def initialLeaveRecords_def hannah_def)
  from isOverlapping_spec [of leaveRecs employee reviewRecord startDate endDate]
    isOverlapping_ignores_rejected [of leaveRecs employee reviewRecord startDate endDate]
    a b c d
  show ?thesis by blast
qed

theorem isOverlapping_inclusive_intersection_witness:
  "spec_hasOverlap initialLeaveRecords (e_id diana)
      (daysFromCivil 2023 11 1) (daysFromCivil 2023 11 5) (map_option l_id None)
   \<and> isOverlapping initialLeaveRecords diana None
      (daysFromCivil 2023 11 1) (daysFromCivil 2023 11 5)"
proof -
  have s: "spec_hasOverlap initialLeaveRecords (e_id diana)
      (daysFromCivil 2023 11 1) (daysFromCivil 2023 11 5) (map_option l_id None)"
    by (simp add: spec_hasOverlap_def initialLeaveRecords_def diana_def)
  note eq = isOverlapping_inclusive_intersection
         [of initialLeaveRecords diana None "daysFromCivil 2023 11 1" "daysFromCivil 2023 11 5",
          THEN conjunct1]
  from s show ?thesis unfolding eq by simp
qed

subsection \<open>The windows and the local time zone\<close>

lemma day_window_iff:
  fixes t q a b :: int
  assumes "0 \<le> a" "a \<le> b" "b < 86400000"
  shows "(q * 86400000 + a \<le> t \<and> t \<le> q * 86400000 + b)
           \<longleftrightarrow> (a \<le> t mod 86400000 \<and> t mod 86400000 \<le> b \<and> t div 86400000 = q)"
proof
  assume h: "q * 86400000 + a \<le> t \<and> t \<le> q * 86400000 + b"
  define r where "r = t - q * 86400000"
  have r: "0 \<le> r" "r < 86400000" "t = 86400000 * q + r" using h assms by (simp_all add: r_def)
  have d: "t div 86400000 = q" using r by (simp add: int_div_pos_eq)
  have m: "t mod 86400000 = r" using r by (simp add: int_mod_pos_eq)
  from d m h show "a \<le> t mod 86400000 \<and> t mod 86400000 \<le> b \<and> t div 86400000 = q"
    by (simp add: r_def)
next
  assume h: "a \<le> t mod 86400000 \<and> t mod 86400000 \<le> b \<and> t div 86400000 = q"
  have "t = (t div 86400000) * 86400000 + t mod 86400000" by simp
  with h show "q * 86400000 + a \<le> t \<and> t \<le> q * 86400000 + b" by linarith
qed

lemma inWindow_iff_wallClock:
  "inWindow env p \<longleftrightarrow>
     wallClockInWindow env p
     \<and> (now env + tz env) div msPerDay
         = (newDate (toISODate (now env)) + tz env) div msPerDay"
proof -
  obtain h1 m1 h2 m2 where w: "spec_window p = ((h1, m1), (h2, m2))"
    by (metis prod.exhaust)
  have b: "0 \<le> hm h1 m1" "hm h1 m1 \<le> hm h2 m2" "hm h2 m2 < 86400000"
    using w by (cases p; simp add: hm_def)+
  let ?q = "(newDate (toISODate (now env)) + tz env) div 86400000"
  have "inWindow env p \<longleftrightarrow>
          ?q * 86400000 + hm h1 m1 \<le> now env + tz env
          \<and> now env + tz env \<le> ?q * 86400000 + hm h2 m2"
    using w
    by (auto simp add: inWindow_def windowStart_def windowEnd_def setHours_def Let_def
          hm_def msPerDay_def)
  also have "\<dots> \<longleftrightarrow> hm h1 m1 \<le> (now env + tz env) mod 86400000
          \<and> (now env + tz env) mod 86400000 \<le> hm h2 m2
          \<and> (now env + tz env) div 86400000 = ?q"
    by (rule day_window_iff [OF b])
  finally show ?thesis
    using w by (auto simp add: wallClockInWindow_def wallClock_def msPerDay_def)
qed

text \<open>
  East of UTC the local day starts before the UTC day, and \<open>todayStr\<close> is the UTC
  date: in a zone eight hours ahead, a scan at 07:00 local time on 2023-10-27 is
  2023-10-26T23:00Z, its window is built on 2023-10-26, and the Time In is rejected.
\<close>

lemma morning_scan_eight_hours_east:
  "wallClock (8 * 3600000) (utcInstant 2023 10 26 23 0) = hm 7 0
   \<and> wallClockInWindow (scanEnv (utcInstant 2023 10 26 23 0) (8 * 3600000) None) TimeIn
   \<and> snd (onScanSuccess initialState (scanEnv (utcInstant 2023 10 26 23 0) (8 * 3600000) None)
          (Payload (Some ''Admin Office'')) (userOf ''bob'' ''1002''))
       = Inl (OutsideAllowedWindow TimeIn)"
proof -
  let ?env = "scanEnv (utcInstant 2023 10 26 23 0) (8 * 3600000) None"
  have d: "toISODate (now ?env) = 19656"
    by (simp add: scanEnv_def utcInstant_def toISODate_def msPerDay_def)
  have wc: "wallClock (8 * 3600000) (utcInstant 2023 10 26 23 0) = hm 7 0"
    by (simp add: wallClock_def utcInstant_def hm_def msPerDay_def)
  have ww: "wallClockInWindow ?env TimeIn"
    by (simp add: wallClockInWindow_def wallClock_def scanEnv_def utcInstant_def hm_def msPerDay_def)
  have nl: "employeeOnLeave (leaveRecords initialState) bob (toISODate (now ?env)) = None"
    unfolding d by (simp add: employeeOnLeave_def initialState_def initialLeaveRecords_def bob_def)
  have c: "currentRecord initialState bob 19656 = newRecord bob 19656"
    by (simp add: currentRecord_def findRecord_def initialState_def initialDailyRecords_def bob_def)
  have std: "onDuty (newRecord bob 19656) \<noteq> Some True" by (simp add: newRecord_def)
  have nw: "\<not> inWindow ?env TimeIn"
    by (simp add: inWindow_def windowStart_def windowEnd_def scanEnv_def utcInstant_def
          toISODate_def newDate_def setHours_def msPerDay_def)
  from timeLogging_standard [OF std, of ?env bob "fst (geolocationCheck ?env bob adminOffice)"] nw
  have t: "timeLogging ?env bob (fst (geolocationCheck ?env bob adminOffice)) (newRecord bob 19656)
             = Inl (OutsideAllowedWindow TimeIn)"
    by (simp add: spec_nextPunch_def newRecord_def)
  have "snd (onScanSuccess initialState ?env (Payload (Some ''Admin Office'')) (userOf ''bob'' ''1002''))
          = Inl (OutsideAllowedWindow TimeIn)"
    unfolding onScanSuccess_no_leave [OF bob_passes nl] d c t by simp
  with wc ww show ?thesis by simp
qed

text \<open>
  Up to a day east of UTC, the bounds the handler builds are those of the window on
  \<open>todayStr\<close>, the UTC date of the scan and the date of the record it works on. West of
  UTC, \<open>new Date(todayStr)\<close> is an instant of the local day before, and the bounds are
  those of the window on the day before the date of the record.
\<close>

lemma inWindow_east:
  assumes "0 \<le> tz env" "tz env < msPerDay"
  shows "inWindow env p \<longleftrightarrow> spec_inWindow (tz env) (toISODate (now env)) p (now env)"
proof -
  have d: "(toISODate (now env) * 86400000 + tz env) div 86400000 = toISODate (now env)"
    using assms by (simp add: msPerDay_def int_div_pos_eq)
  show ?thesis
    by (cases p)
      (auto simp add: inWindow_def spec_inWindow_def windowStart_def windowEnd_def
        spec_windowStart_def spec_windowEnd_def setHours_def newDate_def hm_def msPerDay_def d)
qed

lemma inWindow_west:
  assumes "- msPerDay \<le> tz env" "tz env < 0"
  shows "inWindow env p \<longleftrightarrow> spec_inWindow (tz env) (toISODate (now env) - 1) p (now env)"
proof -
  have "toISODate (now env) * 86400000 + tz env
          = 86400000 * (toISODate (now env) - 1) + (tz env + 86400000)"
    by simp
  moreover have "0 \<le> tz env + 86400000" "tz env + 86400000 < 86400000"
    using assms by (simp_all add: msPerDay_def)
  ultimately have d: "(toISODate (now env) * 86400000 + tz env) div 86400000 = toISODate (now env) - 1"
    by (simp only: int_div_pos_eq)
  show ?thesis
    by (cases p)
      (auto simp add: inWindow_def spec_inWindow_def windowStart_def windowEnd_def
        spec_windowStart_def spec_windowEnd_def setHours_def newDate_def hm_def msPerDay_def d)
qed

text \<open>An instant inside the window on a date is an instant of that local day.\<close>

lemma spec_inWindow_localDay:
  assumes "spec_inWindow tzv date p t"
  shows "localDay tzv t = date"
proof -
  obtain h1 m1 h2 m2 where w: "spec_window p = ((h1, m1), (h2, m2))"
    by (metis prod.exhaust)
  have b: "0 \<le> hm h1 m1" "hm h1 m1 \<le> hm h2 m2" "hm h2 m2 < 86400000"
    using w by (cases p; simp add: hm_def)+
  from assms w have "date * 86400000 + hm h1 m1 \<le> t + tzv \<and> t + tzv \<le> date * 86400000 + hm h2 m2"
    by (simp add: spec_inWindow_def spec_windowStart_def spec_windowEnd_def msPerDay_def)
  with day_window_iff [OF b, of date "t + tzv"] show ?thesis
    by (simp add: localDay_def msPerDay_def)
qed

lemma diana_passes:
  "passesChecks backFromBreak (Payload (Some ''Engineering'')) (userOf ''diana'' ''2002'')
     diana engineering"
  by (simp add: passesChecks_def backFromBreak_def initialState_def initialEmployees_def
        initialDepartments_def userOf_def diana_def engineering_def)

text \<open>
  Claim C2. A standard-track scan is to succeed only at an instant inside the window of
  the next punch on the date of the record. Five hours west of UTC, Diana Miller's
  record of 2023-10-27 holds Time In, Break Out and Break In; she scans at
  2023-10-27T03:00Z, which is 22:00 local time on 2023-10-26. The Time Out window on the
  date of the record starts at 17:00 local time on 2023-10-27, nineteen hours later, and
  the instant is not inside it. The handler builds its bounds on the local day of
  \<open>new Date(todayStr)\<close>, which is 2023-10-26, and writes Time Out on the record of
  2023-10-27.
\<close>

theorem time_out_accepted_on_previous_local_day:
  "findRecord (dailyRecords backFromBreak) diana (toISODate (utcInstant 2023 10 27 3 0))
     = Some (dailyRecords backFromBreak ! 2)
   \<and> r_date (dailyRecords backFromBreak ! 2) = daysFromCivil 2023 10 27
   \<and> onDuty (dailyRecords backFromBreak ! 2) = None
   \<and> spec_nextPunch (dailyRecords backFromBreak ! 2) = Some TimeOut
   \<and> localDay (- (5 * 3600000)) (utcInstant 2023 10 27 3 0) = daysFromCivil 2023 10 26
   \<and> wallClock (- (5 * 3600000)) (utcInstant 2023 10 27 3 0) = hm 22 0
   \<and> spec_windowStart (- (5 * 3600000)) (daysFromCivil 2023 10 27) TimeOut
       = utcInstant 2023 10 27 22 0
   \<and> \<not> spec_inWindow (- (5 * 3600000)) (daysFromCivil 2023 10 27) TimeOut
         (utcInstant 2023 10 27 3 0)
   \<and> snd (onScanSuccess backFromBreak (scanEnv (utcInstant 2023 10 27 3 0) (- (5 * 3600000)) None)
          (Payload (Some ''Engineering'')) (userOf ''diana'' ''2002''))
       = Inr \<lparr> message = ''Time Out for Diana Miller successful. (Could not get location. Scan will proceed without verification.)'',
               recordId = ''2002-2023-10-27'' \<rparr>
   \<and> dailyRecords (fst (onScanSuccess backFromBreak
          (scanEnv (utcInstant 2023 10 27 3 0) (- (5 * 3600000)) None)
          (Payload (Some ''Engineering'')) (userOf ''diana'' ''2002'')))
       = (dailyRecords backFromBreak)
           [2 := (dailyRecords backFromBreak ! 2)
                   \<lparr> timeOut := Some (utcInstant 2023 10 27 3 0), isOutOfRange := Some False \<rparr>]"
proof -
  let ?env = "scanEnv (utcInstant 2023 10 27 3 0) (- (5 * 3600000)) None"
  let ?rec = "dailyRecords backFromBreak ! 2"
  have d: "toISODate (utcInstant 2023 10 27 3 0) = 19657"
    by (simp add: utcInstant_def toISODate_def msPerDay_def)
  have dn: "toISODate (now ?env) = 19657"
    by (simp add: scanEnv_def d)
  have f: "findRecord (dailyRecords backFromBreak) diana 19657 = Some ?rec"
    by (simp add: findRecord_def backFromBreak_def initialState_def initialDailyRecords_def
          diana_def)
  have r1: "r_date ?rec = daysFromCivil 2023 10 27"
    by (simp add: backFromBreak_def initialDailyRecords_def)
  have r2: "onDuty ?rec = None"
    by (simp add: backFromBreak_def initialDailyRecords_def)
  have r3: "spec_nextPunch ?rec = Some TimeOut"
    by (simp add: spec_nextPunch_def backFromBreak_def initialDailyRecords_def)
  have l: "localDay (- (5 * 3600000)) (utcInstant 2023 10 27 3 0) = daysFromCivil 2023 10 26"
    by (simp add: localDay_def utcInstant_def msPerDay_def)
  have wc: "wallClock (- (5 * 3600000)) (utcInstant 2023 10 27 3 0) = hm 22 0"
    by (simp add: wallClock_def utcInstant_def hm_def msPerDay_def)
  have ws: "spec_windowStart (- (5 * 3600000)) (daysFromCivil 2023 10 27) TimeOut
       = utcInstant 2023 10 27 22 0"
    by (simp add: spec_windowStart_def utcInstant_def hm_def msPerDay_def)
  have nw: "\<not> spec_inWindow (- (5 * 3600000)) (daysFromCivil 2023 10 27) TimeOut
         (utcInstant 2023 10 27 3 0)"
    by (simp add: spec_inWindow_def spec_windowStart_def spec_windowEnd_def utcInstant_def
          hm_def msPerDay_def)
  have nl: "employeeOnLeave (leaveRecords backFromBreak) diana (toISODate (now ?env)) = None"
    unfolding dn
    by (simp add: employeeOnLeave_def backFromBreak_def initialState_def initialLeaveRecords_def
          diana_def)
  have c: "currentRecord backFromBreak diana 19657 = ?rec"
    by (simp add: currentRecord_def f)
  have g: "geolocationCheck ?env diana engineering = (False, [])"
    by (simp add: geolocationCheck_def scanEnv_def)
  have t: "timeLogging ?env diana False ?rec
             = Inr (setScanDetails ?env False (?rec\<lparr> timeOut := Some (now ?env) \<rparr>),
                    ''Time Out for Diana Miller successful.'')"
    by (simp add: timeLogging_def Let_def backFromBreak_def initialDailyRecords_def diana_def
          scanEnv_def utcInstant_def toISODate_def newDate_def setHours_def msPerDay_def)
  have run: "onScanSuccess backFromBreak ?env (Payload (Some ''Engineering'')) (userOf ''diana'' ''2002'')
       = (backFromBreak\<lparr> dailyRecords := (dailyRecords backFromBreak)
             [2 := ?rec\<lparr> timeOut := Some (utcInstant 2023 10 27 3 0), isOutOfRange := Some False \<rparr>] \<rparr>,
          Inr \<lparr> message = ''Time Out for Diana Miller successful. (Could not get location. Scan will proceed without verification.)'',
                recordId = ''2002-2023-10-27'' \<rparr>)"
    unfolding onScanSuccess_no_leave [OF diana_passes nl] dn c g fst_conv snd_conv t f
    by (simp add: upsert_def backFromBreak_def initialState_def initialDailyRecords_def
          setScanDetails_def scanEnv_def suffixes_def locationErrorText_def)
  have res: "snd (onScanSuccess backFromBreak ?env (Payload (Some ''Engineering'')) (userOf ''diana'' ''2002''))
       = Inr \<lparr> message = ''Time Out for Diana Miller successful. (Could not get location. Scan will proceed without verification.)'',
               recordId = ''2002-2023-10-27'' \<rparr>"
    unfolding run by simp
  have recs: "dailyRecords (fst (onScanSuccess backFromBreak ?env (Payload (Some ''Engineering'')) (userOf ''diana'' ''2002'')))
       = (dailyRecords backFromBreak)
           [2 := ?rec\<lparr> timeOut := Some (utcInstant 2023 10 27 3 0), isOutOfRange := Some False \<rparr>]"
    unfolding run by simp
  from f [folded d] r1 r2 r3 l wc ws nw res recs show ?thesis by (intro conjI)
qed

text \<open>
  Claim C9. A scan at exactly a window endpoint is to succeed. Eight hours east of UTC,
  Bob Williams, who has no record and no leave, scans at 2023-10-26T22:00:00.000Z, which
  is exactly 06:00:00.000 local time on 2023-10-27, the start of the Time In window of
  that day. \<open>todayStr\<close> is 2023-10-26, the handler builds the bounds of that local day,
  and the scan is rejected with the window error of Time In.
\<close>

theorem scan_at_window_start_rejected:
  "wallClock (8 * 3600000) (utcInstant 2023 10 26 22 0) = hm 6 0
   \<and> localDay (8 * 3600000) (utcInstant 2023 10 26 22 0) = daysFromCivil 2023 10 27
   \<and> utcInstant 2023 10 26 22 0
       = spec_windowStart (8 * 3600000) (daysFromCivil 2023 10 27) TimeIn
   \<and> spec_inWindow (8 * 3600000) (daysFromCivil 2023 10 27) TimeIn (utcInstant 2023 10 26 22 0)
   \<and> findRecord (dailyRecords initialState) bob (daysFromCivil 2023 10 26) = None
   \<and> findRecord (dailyRecords initialState) bob (daysFromCivil 2023 10 27) = None
   \<and> toISODate (utcInstant 2023 10 26 22 0) = daysFromCivil 2023 10 26
   \<and> windowEnd (scanEnv (utcInstant 2023 10 26 22 0) (8 * 3600000) None) TimeIn
       = utcInstant 2023 10 26 0 0
   \<and> snd (onScanSuccess initialState (scanEnv (utcInstant 2023 10 26 22 0) (8 * 3600000) None)
          (Payload (Some ''Admin Office'')) (userOf ''bob'' ''1002''))
       = Inl (OutsideAllowedWindow TimeIn)
   \<and> dailyRecords (fst (onScanSuccess initialState
          (scanEnv (utcInstant 2023 10 26 22 0) (8 * 3600000) None)
          (Payload (Some ''Admin Office'')) (userOf ''bob'' ''1002'')))
       = dailyRecords initialState"
proof -
  let ?env = "scanEnv (utcInstant 2023 10 26 22 0) (8 * 3600000) None"
  have d: "toISODate (utcInstant 2023 10 26 22 0) = daysFromCivil 2023 10 26"
    by (simp add: utcInstant_def toISODate_def msPerDay_def)
  have dn: "toISODate (now ?env) = 19656"
    using d by (simp add: scanEnv_def)
  have wc: "wallClock (8 * 3600000) (utcInstant 2023 10 26 22 0) = hm 6 0"
    by (simp add: wallClock_def utcInstant_def hm_def msPerDay_def)
  have l: "localDay (8 * 3600000) (utcInstant 2023 10 26 22 0) = daysFromCivil 2023 10 27"
    by (simp add: localDay_def utcInstant_def msPerDay_def)
  have ws: "utcInstant 2023 10 26 22 0
       = spec_windowStart (8 * 3600000) (daysFromCivil 2023 10 27) TimeIn"
    by (simp add: spec_windowStart_def utcInstant_def hm_def msPerDay_def)
  have iw: "spec_inWindow (8 * 3600000) (daysFromCivil 2023 10 27) TimeIn (utcInstant 2023 10 26 22 0)"
    by (simp add: spec_inWindow_def spec_windowStart_def spec_windowEnd_def utcInstant_def
          hm_def msPerDay_def)
  have f1: "findRecord (dailyRecords initialState) bob (daysFromCivil 2023 10 26) = None"
    by (simp add: findRecord_def initialState_def initialDailyRecords_def bob_def)
  have f2: "findRecord (dailyRecords initialState) bob (daysFromCivil 2023 10 27) = None"
    by (simp add: findRecord_def initialState_def initialDailyRecords_def bob_def)
  have we: "windowEnd ?env TimeIn = utcInstant 2023 10 26 0 0"
    by (simp add: windowEnd_def scanEnv_def utcInstant_def toISODate_def newDate_def
          setHours_def msPerDay_def)
  have nl: "employeeOnLeave (leaveRecords initialState) bob (toISODate (now ?env)) = None"
    unfolding dn by (simp add: employeeOnLeave_def initialState_def initialLeaveRecords_def bob_def)
  have c: "currentRecord initialState bob 19656 = newRecord bob 19656"
    using f1 by (simp add: currentRecord_def)
  have std: "onDuty (newRecord bob 19656) \<noteq> Some True" by (simp add: newRecord_def)
  have nw: "\<not> inWindow ?env TimeIn"
    by (simp add: inWindow_def windowStart_def windowEnd_def scanEnv_def utcInstant_def
          toISODate_def newDate_def setHours_def msPerDay_def)
  from timeLogging_standard [OF std, of ?env bob "fst (geolocationCheck ?env bob adminOffice)"] nw
  have t: "timeLogging ?env bob (fst (geolocationCheck ?env bob adminOffice)) (newRecord bob 19656)
             = Inl (OutsideAllowedWindow TimeIn)"
    by (simp add: spec_nextPunch_def newRecord_def)
  have res: "snd (onScanSuccess initialState ?env (Payload (Some ''Admin Office'')) (userOf ''bob'' ''1002''))
          = Inl (OutsideAllowedWindow TimeIn)"
    unfolding onScanSuccess_no_leave [OF bob_passes nl] dn c t by simp
  have recs: "dailyRecords (fst (onScanSuccess initialState ?env (Payload (Some ''Admin Office'')) (userOf ''bob'' ''1002'')))
          = dailyRecords initialState"
    unfolding onScanSuccess_no_leave [OF bob_passes nl] dn c t by simp
  from wc l ws iw f1 f2 d we res recs show ?thesis by (intro conjI)
qed

end
